theory Spec2Isabelle
  imports Complex_Main
begin

section \<open>Python values, exceptions and strings\<close>

text \<open>
  The backend is a Cython extension class (\<^verbatim>\<open>gurobi_backend.pyx\<close>) compiled for
  Python 3. Exceptions are values: every \<^verbatim>\<open>raise\<close> of the source, and the
  \<^verbatim>\<open>KeyError\<close> of a failed dictionary subscript, is a constructor of \<open>exn\<close>.
  C doubles are modelled as \<open>real\<close> (the claims store, compare and add them; rounding
  is not modelled), C ints as \<open>int\<close>.
\<close>

datatype exn =
    MIPSolverException string
  | ValueError string
  | KeyError int
  | RuntimeError string
  | TypeError

text \<open>\<^verbatim>\<open>str(n)\<close> of an integer: decimal digits, with a leading minus sign.\<close>

fun str_nat :: "nat \<Rightarrow> string" where
  "str_nat n = (if n < 10 then [char_of (48 + n)] else str_nat (n div 10) @ [char_of (48 + n mod 10)])"

declare str_nat.simps [simp del]

definition str_int :: "int \<Rightarrow> string" where
  "str_int i = (if i < 0 then CHR ''-'' # str_nat (nat (- i)) else str_nat (nat i))"

text \<open>
  \<^verbatim>\<open>str(b)\<close> of a \<^verbatim>\<open>bytes\<close> object is its \<^verbatim>\<open>repr\<close>: the letter b, a quote, the
  bytes with the quote, the backslash and the non-printable bytes escaped, and the quote.
  The quote is the double quote only when the bytes hold a single quote and no double
  quote.
\<close>

definition hex_digit :: "nat \<Rightarrow> char" where
  "hex_digit n = (if n < 10 then char_of (48 + n) else char_of (87 + n))"

definition repr_byte :: "char \<Rightarrow> char \<Rightarrow> string" where
  "repr_byte quote c =
     (if c = quote \<or> c = CHR 0x5C then [CHR 0x5C, c]
      else if c = CHR 0x09 then [CHR 0x5C, CHR ''t'']
      else if c = CHR 0x0A then [CHR 0x5C, CHR ''n'']
      else if c = CHR 0x0D then [CHR 0x5C, CHR ''r'']
      else if (of_char c :: nat) < 32 \<or> (of_char c :: nat) \<ge> 127
        then [CHR 0x5C, CHR ''x'', hex_digit ((of_char c :: nat) div 16), hex_digit ((of_char c :: nat) mod 16)]
      else [c])"

definition str_bytes :: "string \<Rightarrow> string" where
  "str_bytes b =
     (let quote = (if CHR 0x27 \<in> set b \<and> CHR 0x22 \<notin> set b then CHR 0x22 else CHR 0x27)
      in [CHR ''b'', quote] @ concat (map (repr_byte quote) b) @ [quote])"

text \<open>\<^verbatim>\<open>s.lower()\<close> on the ASCII letters; parameter names are ASCII.\<close>

definition lower_char :: "char \<Rightarrow> char" where
  "lower_char c = (if 65 \<le> (of_char c :: nat) \<and> (of_char c :: nat) \<le> 90 then char_of ((of_char c :: nat) + 32) else c)"

definition py_lower :: "string \<Rightarrow> string" where
  "py_lower s = map lower_char s"

text \<open>
  Truthiness of an optional number, as \<^verbatim>\<open>if coeff:\<close> tests it: \<^verbatim>\<open>None\<close> and zero
  are false, every other number is true.
\<close>

fun py_bool :: "real option \<Rightarrow> bool" where
  "py_bool None = False"
| "py_bool (Some x) = (x \<noteq> 0)"

section \<open>The static tables\<close>

text \<open>The dictionary \<^verbatim>\<open>errors\<close>: native error code to symbolic name.\<close>

definition errors_items :: "(int \<times> string) list" where
  "errors_items =
    [(10001, ''GRB_ERROR_OUT_OF_MEMORY''),
     (10002, ''GRB_ERROR_NULL_ARGUMENT''),
     (10003, ''GRB_ERROR_INVALID_ARGUMENT''),
     (10004, ''GRB_ERROR_UNKNOWN_ATTRIBUTE''),
     (10005, ''GRB_ERROR_DATA_NOT_AVAILABLE''),
     (10006, ''GRB_ERROR_INDEX_OUT_OF_RANGE''),
     (10007, ''GRB_ERROR_UNKNOWN_PARAMETER''),
     (10008, ''GRB_ERROR_VALUE_OUT_OF_RANGE''),
     (10009, ''GRB_ERROR_NO_LICENSE''),
     (10010, ''GRB_ERROR_SIZE_LIMIT_EXCEEDED''),
     (10011, ''GRB_ERROR_CALLBACK''),
     (10012, ''GRB_ERROR_FILE_READ''),
     (10013, ''GRB_ERROR_FILE_WRITE''),
     (10014, ''GRB_ERROR_NUMERIC''),
     (10015, ''GRB_ERROR_IIS_NOT_INFEASIBLE''),
     (10016, ''GRB_ERROR_NOT_FOR_MIP''),
     (10017, ''GRB_ERROR_OPTIMIZATION_IN_PROGRESS''),
     (10018, ''GRB_ERROR_DUPLICATES''),
     (10019, ''GRB_ERROR_NODEFILE''),
     (10020, ''GRB_ERROR_Q_NOT_PSD'')]"

definition errors :: "int \<rightharpoonup> string" where
  "errors = map_of errors_items"

section \<open>The error-translation routine\<close>

text \<open>
  \<^verbatim>\<open>check(env, error)\<close>. The argument \<open>errormsg\<close> is the text that
  \<^verbatim>\<open>GRBgeterrormsg(env)\<close> returns (a C string, so a \<^verbatim>\<open>bytes\<close> object in Python).
  The message is built left to right, so the subscript \<^verbatim>\<open>errors[error]\<close> is evaluated
  last; a code that is not a key raises \<^verbatim>\<open>KeyError\<close>.
\<close>

definition check :: "string \<Rightarrow> int \<Rightarrow> exn + unit" where
  "check errormsg error =
     (if error \<noteq> 0 then
        (case errors error of
           None \<Rightarrow> Inl (KeyError error)
         | Some name \<Rightarrow>
             Inl (MIPSolverException (''Gurobi: '' @ str_bytes errormsg @ '' ('' @ name @ '')'')))
      else Inr ())"

section \<open>The native solver layer\<close>

text \<open>
  Modelled from the spec: the native solver C API is an external, opaque library; neither
  its code nor its header is part of the repository. What follows models the part of it
  the backend calls, after the spec's data model (a variable has a lower bound, an upper
  bound, a type, an objective coefficient and a name; a row has a sparse coefficient
  vector, a relational form, a right-hand side and a name; an environment holds named
  parameters, each an integer, a real or a string) and its external interface (attribute
  get and set by name, row and column add, optimize, an error text per environment).
  A native call returns the error code 0 on success, and a change it makes is seen by the
  reads that follow it, as the doctests of the source expect (\<^verbatim>\<open>row_bounds\<close> right after
  \<^verbatim>\<open>add_linear_constraint\<close>). String arguments are C strings. The optimizer itself is a
  parameter of \<open>solve\<close>.
\<close>

text \<open>
  The constants of the native header the source names. Their values are not part of the
  repository; every definition below takes them as the parameter \<open>c\<close>.
\<close>

record grb_consts =
  GRB_INFINITY :: real
  GRB_OPTIMAL :: int
  GRB_INFEASIBLE :: int
  GRB_INF_OR_UNBD :: int
  GRB_UNBOUNDED :: int
  GRB_ITERATION_LIMIT :: int
  GRB_NODE_LIMIT :: int
  GRB_TIME_LIMIT :: int
  GRB_SOLUTION_LIMIT :: int
  GRB_LESS_EQUAL :: char
  GRB_GREATER_EQUAL :: char
  GRB_EQUAL :: char
  GRB_BINARY :: char
  GRB_CONTINUOUS :: char
  GRB_INTEGER :: char

text \<open>The values the native header of the solver gives them, used for concrete runs.\<close>

definition gurobi_c_h :: grb_consts where
  "gurobi_c_h =
     \<lparr>GRB_INFINITY = 10 ^ 100, GRB_OPTIMAL = 2, GRB_INFEASIBLE = 3, GRB_INF_OR_UNBD = 4,
      GRB_UNBOUNDED = 5, GRB_ITERATION_LIMIT = 7, GRB_NODE_LIMIT = 8, GRB_TIME_LIMIT = 9,
      GRB_SOLUTION_LIMIT = 10, GRB_LESS_EQUAL = CHR ''<'', GRB_GREATER_EQUAL = CHR ''>'',
      GRB_EQUAL = CHR ''='', GRB_BINARY = CHR ''B'', GRB_CONTINUOUS = CHR ''C'',
      GRB_INTEGER = CHR ''I''\<rparr>"

record grb_env =
  int_params :: "string \<rightharpoonup> int"
  dbl_params :: "string \<rightharpoonup> real"
  str_params :: "string \<rightharpoonup> string"
  errormsg :: string

record grb_var =
  var_Obj :: real
  var_LB :: real
  var_UB :: real
  var_VType :: char
  var_VarName :: string

record grb_constr =
  constr_row :: "(int \<times> real) list"
  constr_Sense :: char
  constr_RHS :: real
  constr_ConstrName :: string

record grb_model =
  m_env :: grb_env
  m_vars :: "grb_var list"
  m_constrs :: "grb_constr list"
  m_ModelSense :: int
  m_ModelName :: "string option"
  m_Status :: int
  m_ObjVal :: "real option"

text \<open>
  The native calls the backend makes, with the arguments it passes. Every native call is
  appended to the log \<open>calls\<close> of the backend, so that "before any native call" and
  "dispatches to" are statements about the log.
\<close>

datatype env_ptr = Env_master | Env_model

datatype native_call =
    Call_GRBemptyenv
  | Call_GRBstartenv
  | Call_GRBnewmodel
  | Call_GRBgetenv
  | Call_GRBcopymodel
  | Call_GRBsetintparam env_ptr string int
  | Call_GRBgetintparam env_ptr string
  | Call_GRBsetdblparam env_ptr string real
  | Call_GRBgetdblparam env_ptr string
  | Call_GRBsetstrparam env_ptr string string
  | Call_GRBgetstrparam env_ptr string
  | Call_GRBsetintattr string int
  | Call_GRBgetintattr string
  | Call_GRBgetdblattr string
  | Call_GRBsetstrattr string string
  | Call_GRBgetstrattr string
  | Call_GRBsetdblattrelement string int real
  | Call_GRBgetdblattrelement string int
  | Call_GRBgetcharattrelement string int
  | Call_GRBaddvar "(int \<times> real) list" real real real char string
  | Call_GRBaddconstr "(int \<times> real) list" char real string
  | Call_GRBaddrangeconstr "(int \<times> real) list" real real string
  | Call_GRBupdatemodel
  | Call_GRBoptimize

section \<open>The backend object\<close>

text \<open>
  The fields of \<^verbatim>\<open>GurobiBackend\<close>: the master environment, the model (which holds the
  environment \<^verbatim>\<open>self.env\<close> points to, \<^verbatim>\<open>GRBgetenv(self.model)\<close>), and the constant
  term of the objective. \<open>calls\<close> is the log of native calls.
\<close>

record backend =
  env_master :: grb_env
  model :: grb_model
  obj_constant_term :: real
  calls :: "native_call list"

definition logged :: "native_call \<Rightarrow> backend \<Rightarrow> backend" where
  "logged k w = w\<lparr>calls := calls w @ [k]\<rparr>"

definition get_env :: "env_ptr \<Rightarrow> backend \<Rightarrow> grb_env" where
  "get_env p w = (case p of Env_master \<Rightarrow> env_master w | Env_model \<Rightarrow> m_env (model w))"

definition put_env :: "env_ptr \<Rightarrow> grb_env \<Rightarrow> backend \<Rightarrow> backend" where
  "put_env p e w =
     (case p of Env_master \<Rightarrow> w\<lparr>env_master := e\<rparr>
      | Env_model \<Rightarrow> w\<lparr>model := (model w)\<lparr>m_env := e\<rparr>\<rparr>)"

definition in_range :: "int \<Rightarrow> 'a list \<Rightarrow> bool" where
  "in_range i xs = (0 \<le> i \<and> i < int (length xs))"

subsection \<open>Parameters of an environment\<close>

definition env_setintparam :: "string \<Rightarrow> int \<Rightarrow> grb_env \<Rightarrow> int \<times> grb_env" where
  "env_setintparam name v e =
     (if name \<in> dom (int_params e)
      then (0, e\<lparr>int_params := (int_params e)(name \<mapsto> v)\<rparr>)
      else (10007, e))"

definition GRBsetintparam :: "env_ptr \<Rightarrow> string \<Rightarrow> int \<Rightarrow> backend \<Rightarrow> int \<times> backend" where
  "GRBsetintparam p name v w =
     (let w1 = logged (Call_GRBsetintparam p name v) w
      in case env_setintparam name v (get_env p w1) of (error, e) \<Rightarrow> (error, put_env p e w1))"

definition GRBgetintparam :: "env_ptr \<Rightarrow> string \<Rightarrow> backend \<Rightarrow> (int \<times> int) \<times> backend" where
  "GRBgetintparam p name w =
     (let w1 = logged (Call_GRBgetintparam p name) w
      in case int_params (get_env p w1) name of
           Some v \<Rightarrow> ((0, v), w1)
         | None \<Rightarrow> ((10007, 0), w1))"

definition GRBsetdblparam :: "env_ptr \<Rightarrow> string \<Rightarrow> real \<Rightarrow> backend \<Rightarrow> int \<times> backend" where
  "GRBsetdblparam p name v w =
     (let w1 = logged (Call_GRBsetdblparam p name v) w; e = get_env p w1
      in if name \<in> dom (dbl_params e)
         then (0, put_env p (e\<lparr>dbl_params := (dbl_params e)(name \<mapsto> v)\<rparr>) w1)
         else (10007, w1))"

definition GRBgetdblparam :: "env_ptr \<Rightarrow> string \<Rightarrow> backend \<Rightarrow> (int \<times> real) \<times> backend" where
  "GRBgetdblparam p name w =
     (let w1 = logged (Call_GRBgetdblparam p name) w
      in case dbl_params (get_env p w1) name of
           Some v \<Rightarrow> ((0, v), w1)
         | None \<Rightarrow> ((10007, 0), w1))"

definition GRBsetstrparam :: "env_ptr \<Rightarrow> string \<Rightarrow> string \<Rightarrow> backend \<Rightarrow> int \<times> backend" where
  "GRBsetstrparam p name v w =
     (let w1 = logged (Call_GRBsetstrparam p name v) w; e = get_env p w1
      in if name \<in> dom (str_params e)
         then (0, put_env p (e\<lparr>str_params := (str_params e)(name \<mapsto> v)\<rparr>) w1)
         else (10007, w1))"

definition GRBgetstrparam :: "env_ptr \<Rightarrow> string \<Rightarrow> backend \<Rightarrow> (int \<times> string) \<times> backend" where
  "GRBgetstrparam p name w =
     (let w1 = logged (Call_GRBgetstrparam p name) w
      in case str_params (get_env p w1) name of
           Some v \<Rightarrow> ((0, v), w1)
         | None \<Rightarrow> ((10007, []), w1))"

subsection \<open>Attributes of a model\<close>

definition GRBupdatemodel :: "backend \<Rightarrow> int \<times> backend" where
  "GRBupdatemodel w = (0, logged Call_GRBupdatemodel w)"

definition GRBsetintattr :: "string \<Rightarrow> int \<Rightarrow> backend \<Rightarrow> int \<times> backend" where
  "GRBsetintattr attr v w =
     (let w1 = logged (Call_GRBsetintattr attr v) w
      in if attr = ''ModelSense'' then (0, w1\<lparr>model := (model w1)\<lparr>m_ModelSense := v\<rparr>\<rparr>)
         else (10004, w1))"

definition GRBgetintattr :: "string \<Rightarrow> backend \<Rightarrow> (int \<times> int) \<times> backend" where
  "GRBgetintattr attr w =
     (let w1 = logged (Call_GRBgetintattr attr) w; m = model w1
      in if attr = ''NumVars'' then ((0, int (length (m_vars m))), w1)
         else if attr = ''NumConstrs'' then ((0, int (length (m_constrs m))), w1)
         else if attr = ''ModelSense'' then ((0, m_ModelSense m), w1)
         else if attr = ''Status'' then ((0, m_Status m), w1)
         else ((10004, 0), w1))"

definition GRBgetdblattr :: "string \<Rightarrow> backend \<Rightarrow> (int \<times> real) \<times> backend" where
  "GRBgetdblattr attr w =
     (let w1 = logged (Call_GRBgetdblattr attr) w
      in if attr = ''ObjVal'' then
           (case m_ObjVal (model w1) of Some v \<Rightarrow> ((0, v), w1) | None \<Rightarrow> ((10005, 0), w1))
         else ((10004, 0), w1))"

definition GRBsetstrattr :: "string \<Rightarrow> string \<Rightarrow> backend \<Rightarrow> int \<times> backend" where
  "GRBsetstrattr attr v w =
     (let w1 = logged (Call_GRBsetstrattr attr v) w
      in if attr = ''ModelName'' then (0, w1\<lparr>model := (model w1)\<lparr>m_ModelName := Some v\<rparr>\<rparr>)
         else (10004, w1))"

text \<open>The string a string attribute points to; \<open>None\<close> is the null pointer.\<close>

definition GRBgetstrattr :: "string \<Rightarrow> backend \<Rightarrow> (int \<times> string option) \<times> backend" where
  "GRBgetstrattr attr w =
     (let w1 = logged (Call_GRBgetstrattr attr) w
      in if attr = ''ModelName'' then ((0, m_ModelName (model w1)), w1)
         else ((10004, None), w1))"

definition set_var_attr :: "string \<Rightarrow> real \<Rightarrow> grb_var \<Rightarrow> grb_var" where
  "set_var_attr attr v x =
     (if attr = ''Obj'' then x\<lparr>var_Obj := v\<rparr>
      else if attr = ''LB'' then x\<lparr>var_LB := v\<rparr>
      else x\<lparr>var_UB := v\<rparr>)"

definition get_var_attr :: "string \<Rightarrow> grb_var \<Rightarrow> real" where
  "get_var_attr attr x =
     (if attr = ''Obj'' then var_Obj x
      else if attr = ''LB'' then var_LB x
      else var_UB x)"

definition GRBsetdblattrelement :: "string \<Rightarrow> int \<Rightarrow> real \<Rightarrow> backend \<Rightarrow> int \<times> backend" where
  "GRBsetdblattrelement attr i v w =
     (let w1 = logged (Call_GRBsetdblattrelement attr i v) w; m = model w1
      in if attr \<notin> {''Obj'', ''LB'', ''UB''} then (10004, w1)
         else if \<not> in_range i (m_vars m) then (10006, w1)
         else (0, w1\<lparr>model := m\<lparr>m_vars := (m_vars m)[nat i := set_var_attr attr v (m_vars m ! nat i)]\<rparr>\<rparr>))"

definition GRBgetdblattrelement :: "string \<Rightarrow> int \<Rightarrow> backend \<Rightarrow> (int \<times> real) \<times> backend" where
  "GRBgetdblattrelement attr i w =
     (let w1 = logged (Call_GRBgetdblattrelement attr i) w; m = model w1
      in if attr \<in> {''Obj'', ''LB'', ''UB''} then
           (if in_range i (m_vars m) then ((0, get_var_attr attr (m_vars m ! nat i)), w1)
            else ((10006, 0), w1))
         else if attr = ''RHS'' then
           (if in_range i (m_constrs m) then ((0, constr_RHS (m_constrs m ! nat i)), w1)
            else ((10006, 0), w1))
         else ((10004, 0), w1))"

definition GRBgetcharattrelement :: "string \<Rightarrow> int \<Rightarrow> backend \<Rightarrow> (int \<times> char) \<times> backend" where
  "GRBgetcharattrelement attr i w =
     (let w1 = logged (Call_GRBgetcharattrelement attr i) w; m = model w1
      in if attr = ''Sense'' then
           (if in_range i (m_constrs m) then ((0, constr_Sense (m_constrs m ! nat i)), w1)
            else ((10006, CHR 0x00), w1))
         else if attr = ''VType'' then
           (if in_range i (m_vars m) then ((0, var_VType (m_vars m ! nat i)), w1)
            else ((10006, CHR 0x00), w1))
         else ((10004, CHR 0x00), w1))"

subsection \<open>Adding columns and rows\<close>

text \<open>
  A new column enters the rows its sparse column names; a row index out of range is the
  native error 10006 and nothing is added.
\<close>

definition add_to_rows :: "int \<Rightarrow> (int \<times> real) list \<Rightarrow> grb_constr list \<Rightarrow> grb_constr list" where
  "add_to_rows j col rows =
     foldl (\<lambda>rs (i, v). rs[nat i := (rs ! nat i)\<lparr>constr_row := constr_row (rs ! nat i) @ [(j, v)]\<rparr>]) rows col"

definition GRBaddvar ::
  "(int \<times> real) list \<Rightarrow> real \<Rightarrow> real \<Rightarrow> real \<Rightarrow> char \<Rightarrow> string \<Rightarrow> backend \<Rightarrow> int \<times> backend" where
  "GRBaddvar col obj lb ub vtype name w =
     (let w1 = logged (Call_GRBaddvar col obj lb ub vtype name) w; m = model w1
      in if \<exists>i \<in> set (map fst col). \<not> in_range i (m_constrs m) then (10006, w1)
         else (0, w1\<lparr>model := m
                \<lparr>m_vars := m_vars m @
                   [\<lparr>var_Obj = obj, var_LB = lb, var_UB = ub, var_VType = vtype, var_VarName = name\<rparr>],
                 m_constrs := add_to_rows (int (length (m_vars m))) col (m_constrs m)\<rparr>\<rparr>))"

definition GRBaddconstr ::
  "(int \<times> real) list \<Rightarrow> char \<Rightarrow> real \<Rightarrow> string \<Rightarrow> backend \<Rightarrow> int \<times> backend" where
  "GRBaddconstr row sense rhs name w =
     (let w1 = logged (Call_GRBaddconstr row sense rhs name) w; m = model w1
      in if \<exists>j \<in> set (map fst row). \<not> in_range j (m_vars m) then (10006, w1)
         else (0, w1\<lparr>model := m
                \<lparr>m_constrs := m_constrs m @
                   [\<lparr>constr_row = row, constr_Sense = sense, constr_RHS = rhs, constr_ConstrName = name\<rparr>]\<rparr>\<rparr>))"

text \<open>
  A range row, as the native reference manual documents it: the library stores it as an
  equality row whose right-hand side is the lower bound, with one new slack column between
  0 and \<open>upper - lower\<close> subtracted from the row; the \<^verbatim>\<open>Sense\<close> attribute of a range row
  is the sense of an equality.
\<close>

definition GRBaddrangeconstr ::
  "grb_consts \<Rightarrow> (int \<times> real) list \<Rightarrow> real \<Rightarrow> real \<Rightarrow> string \<Rightarrow> backend \<Rightarrow> int \<times> backend" where
  "GRBaddrangeconstr c row lower upper name w =
     (let w1 = logged (Call_GRBaddrangeconstr row lower upper name) w; m = model w1
      in if \<exists>j \<in> set (map fst row). \<not> in_range j (m_vars m) then (10006, w1)
         else (0, w1\<lparr>model := m
                \<lparr>m_vars := m_vars m @
                   [\<lparr>var_Obj = 0, var_LB = 0, var_UB = upper - lower, var_VType = GRB_CONTINUOUS c,
                     var_VarName = []\<rparr>],
                 m_constrs := m_constrs m @
                   [\<lparr>constr_row = row @ [(int (length (m_vars m)), - 1)], constr_Sense = GRB_EQUAL c,
                     constr_RHS = lower, constr_ConstrName = name\<rparr>]\<rparr>\<rparr>))"

subsection \<open>The optimizer\<close>

text \<open>
  The optimization engine is opaque: \<open>optimize\<close> is any function from the model to an
  error code and the model it leaves (its status, its objective value).
\<close>

definition GRBoptimize :: "(grb_model \<Rightarrow> int \<times> grb_model) \<Rightarrow> backend \<Rightarrow> int \<times> backend" where
  "GRBoptimize optimize w =
     (let w1 = logged Call_GRBoptimize w
      in case optimize (model w1) of (error, m) \<Rightarrow> (error, w1\<lparr>model := m\<rparr>))"

section \<open>Sequencing with exceptions\<close>

text \<open>
  A method of the backend takes the object and returns its result, or the exception it
  raised, with the object as the method left it. \<open>py_then\<close> is the semicolon: the second
  statement runs only when the first did not raise.
\<close>

type_synonym 'a res = "(exn + 'a) \<times> backend"

definition py_return :: "'a \<Rightarrow> backend \<Rightarrow> 'a res" where
  "py_return a w = (Inr a, w)"

definition py_raise :: "exn \<Rightarrow> backend \<Rightarrow> 'a res" where
  "py_raise e w = (Inl e, w)"

definition py_then :: "(backend \<Rightarrow> 'a res) \<Rightarrow> ('a \<Rightarrow> backend \<Rightarrow> 'b res) \<Rightarrow> backend \<Rightarrow> 'b res" where
  "py_then f g w = (case f w of (Inl e, w') \<Rightarrow> (Inl e, w') | (Inr a, w') \<Rightarrow> g a w')"

text \<open>
  \<open>native\<close> is \<^verbatim>\<open>error = GRBcall(...)\<close>, and \<open>check_env\<close> is \<^verbatim>\<open>check(env, error)\<close>
  with the error text of the environment \<open>p\<close>. \<open>checked\<close> is the two in a row,
  \<^verbatim>\<open>check(env, GRBcall(...))\<close>, and \<open>checked_out\<close> the same for a call that also fills
  an output argument, which is read after the check.
\<close>

definition native :: "(backend \<Rightarrow> int \<times> backend) \<Rightarrow> backend \<Rightarrow> int res" where
  "native call w = (case call w of (error, w') \<Rightarrow> (Inr error, w'))"

definition check_env :: "env_ptr \<Rightarrow> int \<Rightarrow> backend \<Rightarrow> unit res" where
  "check_env p error w = (check (errormsg (get_env p w)) error, w)"

definition checked :: "env_ptr \<Rightarrow> (backend \<Rightarrow> int \<times> backend) \<Rightarrow> backend \<Rightarrow> unit res" where
  "checked p call w = (case call w of (error, w') \<Rightarrow> (check (errormsg (get_env p w')) error, w'))"

definition checked_out :: "env_ptr \<Rightarrow> (backend \<Rightarrow> (int \<times> 'a) \<times> backend) \<Rightarrow> backend \<Rightarrow> 'a res" where
  "checked_out p call w =
     (case call w of ((error, out), w') \<Rightarrow>
        (case check (errormsg (get_env p w')) error of
           Inl e \<Rightarrow> (Inl e, w')
         | Inr u \<Rightarrow> (Inr out, w')))"

section \<open>The methods of the backend\<close>

text \<open>
  \<^verbatim>\<open>ncols\<close>, \<^verbatim>\<open>nrows\<close> and \<^verbatim>\<open>is_maximization\<close> return a C value and are declared
  \<^verbatim>\<open>noexcept\<close>: an exception raised inside cannot propagate, and the method returns the
  zero of its type. The other \<^verbatim>\<open>cpdef\<close> methods return Python objects (or are declared
  \<^verbatim>\<open>except -1\<close>) and propagate their exceptions.
\<close>

definition ncols :: "backend \<Rightarrow> int \<times> backend" where
  "ncols w =
     (case checked_out Env_model (GRBgetintattr ''NumVars'') w of
        (Inl e, w') \<Rightarrow> (0, w')
      | (Inr i, w') \<Rightarrow> (i, w'))"

definition nrows :: "backend \<Rightarrow> int \<times> backend" where
  "nrows w =
     (case checked_out Env_model (GRBgetintattr ''NumConstrs'') w of
        (Inl e, w') \<Rightarrow> (0, w')
      | (Inr i, w') \<Rightarrow> (i, w'))"

definition is_maximization :: "backend \<Rightarrow> bool \<times> backend" where
  "is_maximization w =
     (case checked_out Env_model (GRBgetintattr ''ModelSense'') w of
        (Inl e, w') \<Rightarrow> (False, w')
      | (Inr sense, w') \<Rightarrow> (sense = - 1, w'))"

text \<open>A C string ends at its first zero byte.\<close>

definition c_str :: "string \<Rightarrow> string" where
  "c_str b = takeWhile (\<lambda>x. x \<noteq> CHR 0x00) b"

text \<open>
  \<^verbatim>\<open>add_variable\<close>. The flags are taken through \<^verbatim>\<open>bool\<close> and counted; the source
  sets \<^verbatim>\<open>continuous\<close> for the count 0 and raises for a count that is neither 0 nor 1.
  Were no flag set after that, \<open>vtype\<close> would keep the count. The default name is
  \<^verbatim>\<open>b"x_" + bytes(self.ncols())\<close>: in Python 3, \<^verbatim>\<open>bytes(n)\<close> is \<open>n\<close> zero bytes.
  The result is \<^verbatim>\<open>self.ncols()-1\<close>.
\<close>

definition add_variable ::
  "grb_consts \<Rightarrow> real option \<Rightarrow> real option \<Rightarrow> bool \<Rightarrow> bool \<Rightarrow> bool \<Rightarrow> real \<Rightarrow> string option \<Rightarrow>
   (int \<times> real) list option \<Rightarrow> backend \<Rightarrow> int res" where
  "add_variable c lower_bound upper_bound binary continuous' integer obj name coefficients w =
     (let vtype = (of_bool binary :: nat) + of_bool continuous' + of_bool integer
      in if vtype \<noteq> 0 \<and> vtype \<noteq> 1 then
           py_raise (ValueError ''Exactly one parameter of 'binary', 'integer' and 'continuous' must be 'True'.'') w
         else
           (let continuous' = (if vtype = 0 then True else continuous');
                vtype = (if binary then GRB_BINARY c
                         else if continuous' then GRB_CONTINUOUS c
                         else if integer then GRB_INTEGER c
                         else char_of vtype);
                (name, w1) = (case name of
                                None \<Rightarrow> (case ncols w of (n, w') \<Rightarrow> (''x_'' @ replicate (nat n) (CHR 0x00), w'))
                              | Some s \<Rightarrow> (s, w));
                c_name = c_str name;
                upper_bound = (case upper_bound of None \<Rightarrow> GRB_INFINITY c | Some u \<Rightarrow> u);
                lower_bound = (case lower_bound of None \<Rightarrow> - GRB_INFINITY c | Some l \<Rightarrow> l);
                col = (case coefficients of None \<Rightarrow> [] | Some cs \<Rightarrow> cs)
            in py_then (checked Env_model (GRBaddvar col obj lower_bound upper_bound vtype c_name))
                 (\<lambda>_. py_then (checked Env_model GRBupdatemodel)
                 (\<lambda>_ w2. case ncols w2 of (n, w3) \<Rightarrow> (Inr (n - 1), w3))) w1))"

definition set_sense :: "int \<Rightarrow> backend \<Rightarrow> unit res" where
  "set_sense sense =
     py_then (checked Env_model (GRBsetintattr ''ModelSense'' (if sense = 1 then - 1 else 1)))
       (\<lambda>_. checked Env_model GRBupdatemodel)"

definition set_verbosity :: "int \<Rightarrow> backend \<Rightarrow> unit res" where
  "set_verbosity level =
     checked Env_model (GRBsetintparam Env_model ''OutputFlag'' (if level \<noteq> 0 then 1 else 0))"

text \<open>
  \<^verbatim>\<open>objective_coefficient(variable, coeff=None)\<close>. The branch is chosen by the
  truthiness of \<open>coeff\<close>. A write returns \<^verbatim>\<open>None\<close>, a read the coefficient.
\<close>

definition objective_coefficient :: "int \<Rightarrow> real option \<Rightarrow> backend \<Rightarrow> real option res" where
  "objective_coefficient variable coeff =
     (if py_bool coeff then
        py_then (checked Env_model (GRBsetdblattrelement ''Obj'' variable (the coeff)))
          (\<lambda>_. py_then (checked Env_model GRBupdatemodel)
          (\<lambda>_. py_return None))
      else
        py_then (checked_out Env_model (GRBgetdblattrelement ''Obj'' variable))
          (\<lambda>value. py_return (Some value)))"

text \<open>
  \<^verbatim>\<open>problem_name(name=None)\<close>: a name writes it, \<^verbatim>\<open>None\<close> reads it (the empty string
  for a null pointer).
\<close>

definition problem_name :: "string option \<Rightarrow> backend \<Rightarrow> string option res" where
  "problem_name name =
     (case name of
        Some s \<Rightarrow>
          py_then (checked Env_model (GRBsetstrattr ''ModelName'' (c_str s)))
            (\<lambda>_. py_then (checked Env_model GRBupdatemodel)
            (\<lambda>_. py_return None))
      | None \<Rightarrow>
          py_then (checked_out Env_model (GRBgetstrattr ''ModelName''))
            (\<lambda>pp_name. py_return (Some (case pp_name of None \<Rightarrow> [] | Some v \<Rightarrow> v))))"

text \<open>
  \<^verbatim>\<open>set_objective(coeff, d)\<close>: the loop writes coefficient \<open>i\<close> of the list to variable
  \<open>i\<close>, counting from 0, and stops at the first native error.
\<close>

fun set_objective_loop :: "int \<Rightarrow> real list \<Rightarrow> backend \<Rightarrow> unit res" where
  "set_objective_loop i [] w = (Inr (), w)"
| "set_objective_loop i (value # rest) w =
     (case checked Env_model (GRBsetdblattrelement ''Obj'' i value) w of
        (Inl e, w') \<Rightarrow> (Inl e, w')
      | (Inr u, w') \<Rightarrow> set_objective_loop (i + 1) rest w')"

definition set_objective :: "real list \<Rightarrow> real \<Rightarrow> backend \<Rightarrow> unit res" where
  "set_objective coeff d =
     py_then (set_objective_loop 0 coeff)
       (\<lambda>_. py_then (checked Env_model GRBupdatemodel)
       (\<lambda>_ w. (Inr (), w\<lparr>obj_constant_term := d\<rparr>)))"

text \<open>
  \<^verbatim>\<open>add_linear_constraint(coefficients, lower_bound, upper_bound, name=None)\<close>. The
  last \<^verbatim>\<open>else\<close> of the source repeats the first test and cannot be reached.
\<close>

definition add_linear_constraint ::
  "grb_consts \<Rightarrow> (int \<times> real) list \<Rightarrow> real option \<Rightarrow> real option \<Rightarrow> string option \<Rightarrow> backend \<Rightarrow> unit res" where
  "add_linear_constraint c coefficients lower_bound upper_bound name =
     (if lower_bound = None \<and> upper_bound = None then
        py_raise (ValueError ''at least one of 'upper_bound' or 'lower_bound' must be set'')
      else
        (let name = (case name of None \<Rightarrow> [] | Some s \<Rightarrow> s)
         in py_then
              (if upper_bound \<noteq> None \<and> lower_bound = None then
                 native (GRBaddconstr coefficients (GRB_LESS_EQUAL c) (the upper_bound) (c_str name))
               else if lower_bound \<noteq> None \<and> upper_bound = None then
                 native (GRBaddconstr coefficients (GRB_GREATER_EQUAL c) (the lower_bound) (c_str name))
               else if upper_bound \<noteq> None \<and> lower_bound \<noteq> None then
                 (if lower_bound = upper_bound then
                    native (GRBaddconstr coefficients (GRB_EQUAL c) (the lower_bound) (c_str name))
                  else
                    native (GRBaddrangeconstr c coefficients (the lower_bound) (the upper_bound) (c_str name)))
               else
                 py_raise (ValueError ''at least one of 'upper_bound' or 'lower_bound' must be set''))
              (\<lambda>error. check_env Env_model error)))"

text \<open>
  \<^verbatim>\<open>row_bounds(index)\<close> reads the attributes \<^verbatim>\<open>Sense\<close> and \<^verbatim>\<open>RHS\<close> of the row.
\<close>

definition row_bounds :: "int \<Rightarrow> backend \<Rightarrow> (real option \<times> real option) res" where
  "row_bounds index =
     py_then (checked_out Env_model (GRBgetcharattrelement ''Sense'' index))
       (\<lambda>sense. py_then (checked_out Env_model (GRBgetdblattrelement ''RHS'' index))
       (\<lambda>d. if sense = CHR ''>'' then py_return (Some d, None)
            else if sense = CHR ''<'' then py_return (None, Some d)
            else py_return (Some d, Some d)))"

definition col_bounds :: "grb_consts \<Rightarrow> int \<Rightarrow> backend \<Rightarrow> (real option \<times> real option) res" where
  "col_bounds c index =
     py_then (checked_out Env_model (GRBgetdblattrelement ''LB'' index))
       (\<lambda>lb. py_then (checked_out Env_model (GRBgetdblattrelement ''UB'' index))
       (\<lambda>ub. py_return (if lb \<le> - GRB_INFINITY c then None else Some lb,
                         if ub \<ge> GRB_INFINITY c then None else Some ub)))"

text \<open>
  The dictionary \<^verbatim>\<open>mip_status\<close>; its keys are constants of the native header. In a
  dictionary display a later item replaces an earlier one with the same key.
\<close>

definition mip_status :: "grb_consts \<Rightarrow> int \<rightharpoonup> string" where
  "mip_status c =
     Map.empty
      (GRB_INFEASIBLE c \<mapsto> ''The problem is infeasible'',
       GRB_INF_OR_UNBD c \<mapsto> ''The problem is infeasible or unbounded'',
       GRB_UNBOUNDED c \<mapsto> ''The problem is unbounded'',
       GRB_ITERATION_LIMIT c \<mapsto> ''The iteration limit has been reached'',
       GRB_NODE_LIMIT c \<mapsto> ''The node limit has been reached'',
       GRB_TIME_LIMIT c \<mapsto> ''The time limit has been reached'',
       GRB_SOLUTION_LIMIT c \<mapsto> ''The solution limit has been reached'')"

text \<open>\<^verbatim>\<open>solve()\<close>; without a \<^verbatim>\<open>return\<close> statement the C int it returns is 0.\<close>

definition solve :: "grb_consts \<Rightarrow> (grb_model \<Rightarrow> int \<times> grb_model) \<Rightarrow> backend \<Rightarrow> int res" where
  "solve c optimize =
     py_then (checked Env_model (GRBoptimize optimize))
       (\<lambda>_. py_then (checked_out Env_model (GRBgetintattr ''Status''))
       (\<lambda>status.
          if status \<noteq> GRB_OPTIMAL c then
            py_raise (MIPSolverException (''Gurobi: '' @
              (case mip_status c status of
                 Some reason \<Rightarrow> reason
               | None \<Rightarrow> ''unknown error during call to GRBoptimize : '' @ str_int status)))
          else py_return 0))"

definition get_objective_value :: "backend \<Rightarrow> real res" where
  "get_objective_value =
     py_then (checked_out Env_model (GRBgetdblattr ''ObjVal''))
       (\<lambda>p_value w. (Inr (p_value + obj_constant_term w), w))"

text \<open>
  The argument \<open>value\<close> of the bound accessors: the default \<^verbatim>\<open>False\<close>, \<^verbatim>\<open>None\<close>, or a
  number. The test is \<^verbatim>\<open>not value is False\<close>, the identity with the object \<^verbatim>\<open>False\<close>.
  A read returns the bound, or \<^verbatim>\<open>None\<close> for an infinite one; a write returns \<^verbatim>\<open>None\<close>.
\<close>

datatype py_bound = PyFalse | PyNone | PyNum real

definition variable_upper_bound :: "grb_consts \<Rightarrow> int \<Rightarrow> py_bound \<Rightarrow> backend \<Rightarrow> real option res" where
  "variable_upper_bound c index value =
     (if value \<noteq> PyFalse then
        py_then (checked Env_model (GRBsetdblattrelement ''UB'' index
                   (case value of PyNum v \<Rightarrow> v | _ \<Rightarrow> GRB_INFINITY c)))
          (\<lambda>_. py_then (checked Env_model GRBupdatemodel)
          (\<lambda>_. py_return None))
      else
        py_then (checked_out Env_model (GRBgetdblattrelement ''UB'' index))
          (\<lambda>b. py_return (if b \<ge> GRB_INFINITY c then None else Some b)))"

definition variable_lower_bound :: "grb_consts \<Rightarrow> int \<Rightarrow> py_bound \<Rightarrow> backend \<Rightarrow> real option res" where
  "variable_lower_bound c index value =
     (if value \<noteq> PyFalse then
        py_then (checked Env_model (GRBsetdblattrelement ''LB'' index
                   (case value of PyNum v \<Rightarrow> v | _ \<Rightarrow> - GRB_INFINITY c)))
          (\<lambda>_. py_then (checked Env_model GRBupdatemodel)
          (\<lambda>_. py_return None))
      else
        py_then (checked_out Env_model (GRBgetdblattrelement ''LB'' index))
          (\<lambda>b. py_return (if b \<le> - GRB_INFINITY c then None else Some b)))"

subsection \<open>Solver parameters\<close>

text \<open>The dictionary \<^verbatim>\<open>parameters_type\<close>: parameter name to the name of its kind.\<close>

definition parameters_type_items :: "(string \<times> string) list" where
  "parameters_type_items =
    [(''AggFill'', ''int''),
     (''Aggregate'', ''int''),
     (''BarConvTol'', ''double''),
     (''BarCorrectors'', ''int''),
     (''BarHomogeneous'', ''int''),
     (''BarOrder'', ''int''),
     (''BarQCPConvTol'', ''double''),
     (''BarIterLimit'', ''int''),
     (''BranchDir'', ''int''),
     (''CliqueCuts'', ''int''),
     (''CoverCuts'', ''int''),
     (''Crossover'', ''int''),
     (''CrossoverBasis'', ''int''),
     (''Cutoff'', ''double''),
     (''CutAggPasses'', ''int''),
     (''CutPasses'', ''int''),
     (''Cuts'', ''int''),
     (''DisplayInterval'', ''int''),
     (''DualReductions'', ''int''),
     (''FeasibilityTol'', ''double''),
     (''FeasRelaxBigM'', ''double''),
     (''FlowCoverCuts'', ''int''),
     (''FlowPathCuts'', ''int''),
     (''GomoryPasses'', ''int''),
     (''GUBCoverCuts'', ''int''),
     (''Heuristics'', ''double''),
     (''IISMethod'', ''int''),
     (''ImpliedCuts'', ''int''),
     (''ImproveStartGap'', ''double''),
     (''ImproveStartNodes'', ''double''),
     (''ImproveStartTime'', ''double''),
     (''InfUnbdInfo'', ''int''),
     (''IntegralityFocus'', ''int''),
     (''InputFile'', ''string''),
     (''IntFeasTol'', ''double''),
     (''IterationLimit'', ''double''),
     (''LogFile'', ''string''),
     (''LogToConsole'', ''int''),
     (''MarkowitzTol'', ''double''),
     (''Method'', ''int''),
     (''MinRelNodes'', ''int''),
     (''MIPFocus'', ''int''),
     (''MIPGap'', ''double''),
     (''MIPGapAbs'', ''double''),
     (''MIPSepCuts'', ''int''),
     (''MIQCPMethod'', ''int''),
     (''MIRCuts'', ''int''),
     (''ModKCuts'', ''int''),
     (''NetworkCuts'', ''int''),
     (''NodefileDir'', ''string''),
     (''NodefileStart'', ''double''),
     (''NodeLimit'', ''double''),
     (''NodeMethod'', ''int''),
     (''NormAdjust'', ''int''),
     (''ObjScale'', ''double''),
     (''OptimalityTol'', ''double''),
     (''OutputFlag'', ''int''),
     (''PerturbValue'', ''double''),
     (''PreCrush'', ''int''),
     (''PreDepRow'', ''int''),
     (''PreDual'', ''int''),
     (''PrePasses'', ''int''),
     (''PreQLinearize'', ''int''),
     (''Presolve'', ''int''),
     (''PreSparsify'', ''int''),
     (''PSDTol'', ''double''),
     (''PumpPasses'', ''int''),
     (''QCPDual'', ''int''),
     (''Quad'', ''int''),
     (''ResultFile'', ''string''),
     (''RINS'', ''int''),
     (''ScaleFlag'', ''int''),
     (''Seed'', ''int''),
     (''Sifting'', ''int''),
     (''SiftMethod'', ''int''),
     (''SimplexPricing'', ''int''),
     (''SolutionLimit'', ''int''),
     (''SolutionNumber'', ''int''),
     (''SubMIPCuts'', ''int''),
     (''SubMIPNodes'', ''int''),
     (''Symmetry'', ''int''),
     (''Threads'', ''int''),
     (''TimeLimit'', ''double''),
     (''VarBranch'', ''int''),
     (''ZeroHalfCuts'', ''int''),
     (''ZeroObjNodes'', ''int'')]"

definition parameters_type :: "string \<rightharpoonup> string" where
  "parameters_type = map_of parameters_type_items"

text \<open>
  The argument \<open>value\<close> of \<^verbatim>\<open>solver_parameter\<close>, and what it returns: \<^verbatim>\<open>None\<close>, an
  integer, a float or a string. Passing a value to a native setter converts it to the C
  type of the parameter; a value that does not convert raises \<^verbatim>\<open>TypeError\<close>. Integers
  are taken to fit the C int.
\<close>

datatype py_value = Py_None | Py_int int | Py_float real | Py_str string

definition as_int :: "py_value \<Rightarrow> exn + int" where
  "as_int v = (case v of Py_int i \<Rightarrow> Inr i | _ \<Rightarrow> Inl TypeError)"

definition as_double :: "py_value \<Rightarrow> exn + real" where
  "as_double v = (case v of Py_int i \<Rightarrow> Inr (real_of_int i) | Py_float r \<Rightarrow> Inr r | _ \<Rightarrow> Inl TypeError)"

definition str_to_bytes :: "py_value \<Rightarrow> exn + string" where
  "str_to_bytes v = (case v of Py_str s \<Rightarrow> Inr s | _ \<Rightarrow> Inl TypeError)"

definition converted :: "exn + 'a \<Rightarrow> backend \<Rightarrow> 'a res" where
  "converted r w = (r, w)"

definition solver_parameter :: "string \<Rightarrow> py_value \<Rightarrow> backend \<Rightarrow> py_value res" where
  "solver_parameter name value =
     (let name = (if name = ''timelimit'' then ''TimeLimit''
                  else if py_lower name = ''logfile'' then ''LogFile''
                  else name)
      in case parameters_type name of
           None \<Rightarrow> py_raise (ValueError ''This parameter is not available. Enabling it may not be so hard, though.'')
         | Some t \<Rightarrow>
             if t = ''int'' then
               (if value = Py_None then
                  py_then (checked_out Env_model (GRBgetintparam Env_model name))
                    (\<lambda>tmp_int. py_return (Py_int tmp_int))
                else
                  py_then (converted (as_int value))
                    (\<lambda>v. py_then (checked Env_model (GRBsetintparam Env_model name v))
                    (\<lambda>_. py_return Py_None)))
             else if t = ''double'' then
               (if value = Py_None then
                  py_then (checked_out Env_model (GRBgetdblparam Env_model name))
                    (\<lambda>tmp_dbl. py_return (Py_float tmp_dbl))
                else
                  py_then (converted (as_double value))
                    (\<lambda>v. py_then (checked Env_model (GRBsetdblparam Env_model name v))
                    (\<lambda>_. py_return Py_None)))
             else if t = ''string'' then
               (if value = Py_None then
                  py_then (checked_out Env_model (GRBgetstrparam Env_model name))
                    (\<lambda>c_name. py_return (Py_str c_name))
                else
                  py_then (converted (str_to_bytes value))
                    (\<lambda>v. py_then (checked Env_model (GRBsetstrparam Env_model name (c_str v)))
                    (\<lambda>_. py_return Py_None)))
             else py_raise (RuntimeError ''This should not happen.''))"

text \<open>
  The renaming \<^verbatim>\<open>solver_parameter\<close> applies to its argument \<open>name\<close> before it reads the
  table: its first two tests, on their own.
\<close>

definition canonical_name :: "string \<Rightarrow> string" where
  "canonical_name name =
     (if name = ''timelimit'' then ''TimeLimit''
      else if py_lower name = ''logfile'' then ''LogFile''
      else name)"

subsection \<open>Construction and copy\<close>

text \<open>
  What the native layer answers while an object is constructed: the error code of
  \<^verbatim>\<open>GRBemptyenv\<close> and the environment it leaves (\<open>None\<close> is the null pointer), and the
  error codes of \<^verbatim>\<open>GRBstartenv\<close> and \<^verbatim>\<open>GRBnewmodel\<close>.
\<close>

record native_start =
  emptyenv_error :: int
  emptyenv_env :: "grb_env option"
  startenv_error :: int
  newmodel_error :: int

text \<open>A new model is empty and holds its own copy of the environment it was made in.\<close>

definition new_model :: "grb_env \<Rightarrow> grb_model" where
  "new_model e =
     \<lparr>m_env = e, m_vars = [], m_constrs = [], m_ModelSense = 1, m_ModelName = None,
      m_Status = 1, m_ObjVal = None\<rparr>"

text \<open>
  \<^verbatim>\<open>__init__(maximization)\<close>. Until \<^verbatim>\<open>GRBnewmodel\<close> has returned, the object has no
  model, and the statements run on the master environment alone; from then on they run on
  the object. The result is the constructed object, or the exception.
\<close>

definition GurobiBackend_init :: "native_start \<Rightarrow> bool \<Rightarrow> exn + backend" where
  "GurobiBackend_init ns maximization =
     (case emptyenv_env ns of
        None \<Rightarrow> Inl (RuntimeError ''Could not initialize Gurobi environment'')
      | Some e0 \<Rightarrow>
          (case check (errormsg e0) (emptyenv_error ns) of
             Inl x \<Rightarrow> Inl x
           | Inr _ \<Rightarrow>
               (case env_setintparam ''OutputFlag'' 0 e0 of (error, e1) \<Rightarrow>
                  (case check (errormsg e1) error of
                     Inl x \<Rightarrow> Inl x
                   | Inr _ \<Rightarrow>
                       (case check (errormsg e1) (startenv_error ns) of
                          Inl x \<Rightarrow> Inl x
                        | Inr _ \<Rightarrow>
                            if newmodel_error ns \<noteq> 0 then
                              Inl (RuntimeError ''Could not initialize Gurobi model'')
                            else
                              (case py_then
                                      (checked Env_model
                                         (GRBsetintattr ''ModelSense'' (if maximization then - 1 else 1)))
                                      (\<lambda>_. py_then (set_sense (if maximization then 1 else - 1))
                                      (\<lambda>_. py_then (set_verbosity 0)
                                      (\<lambda>_ w. (Inr (), w\<lparr>obj_constant_term := 0\<rparr>))))
                                      \<lparr>env_master = e1, model = new_model e1, obj_constant_term = 0,
                                       calls = [Call_GRBemptyenv,
                                                Call_GRBsetintparam Env_master ''OutputFlag'' 0,
                                                Call_GRBstartenv, Call_GRBnewmodel, Call_GRBgetenv]\<rparr> of
                                 (Inl x, w) \<Rightarrow> Inl x
                               | (Inr _, w) \<Rightarrow> Inr w))))))"

text \<open>
  \<^verbatim>\<open>__copy__()\<close>: a new object is constructed with the sense of \<^verbatim>\<open>self\<close>, its model
  is replaced by the native copy of the model of \<^verbatim>\<open>self\<close>, and the problem name is
  written again. The result is the new object, beside \<^verbatim>\<open>self\<close>.
\<close>

definition GurobiBackend_copy :: "native_start \<Rightarrow> backend \<Rightarrow> (exn + backend) \<times> backend" where
  "GurobiBackend_copy ns w =
     (case is_maximization w of (maximization, w1) \<Rightarrow>
        (case GurobiBackend_init ns maximization of
           Inl x \<Rightarrow> (Inl x, w1)
         | Inr p \<Rightarrow>
             (let w2 = logged Call_GRBcopymodel w1;
                  p1 = p\<lparr>model := model w2\<rparr>;
                  p2 = logged Call_GRBgetenv p1
              in case problem_name None w2 of
                   (Inl x, w3) \<Rightarrow> (Inl x, w3)
                 | (Inr name, w3) \<Rightarrow>
                     (case problem_name name p2 of
                        (Inl x, p3) \<Rightarrow> (Inl x, w3)
                      | (Inr _, p3) \<Rightarrow> (Inr p3, w3)))))"

section \<open>A concrete backend\<close>

text \<open>
  The concrete objects the theorems below are run on: the constants of the native header,
  an environment with the parameters and default values the doctests of
  \<^verbatim>\<open>solver_parameter\<close> read, and a maximization problem with two continuous variables
  bounded below by 0, as \<^verbatim>\<open>add_variables(2)\<close> leaves it.
\<close>

definition example_env :: grb_env where
  "example_env =
     \<lparr>int_params = [''OutputFlag'' \<mapsto> 0, ''VarBranch'' \<mapsto> - 1],
      dbl_params = [''TimeLimit'' \<mapsto> 10 ^ 100],
      str_params = [''LogFile'' \<mapsto> []],
      errormsg = []\<rparr>"

definition example_var :: grb_var where
  "example_var =
     \<lparr>var_Obj = 0, var_LB = 0, var_UB = 10 ^ 100, var_VType = CHR ''C'', var_VarName = ''x_''\<rparr>"

definition example_backend :: backend where
  "example_backend =
     \<lparr>env_master = example_env,
      model = \<lparr>m_env = example_env, m_vars = [example_var, example_var], m_constrs = [],
                m_ModelSense = - 1, m_ModelName = None, m_Status = 1, m_ObjVal = None\<rparr>,
      obj_constant_term = 0,
      calls = []\<rparr>"

text \<open>A native layer that constructs objects without error, in the environment above.\<close>

definition example_start :: native_start where
  "example_start =
     \<lparr>emptyenv_error = 0, emptyenv_env = Some example_env, startenv_error = 0, newmodel_error = 0\<rparr>"

text \<open>An optimizer run that ends with the status "optimal" and the objective value 7.5.\<close>

definition example_optimize :: "grb_model \<Rightarrow> int \<times> grb_model" where
  "example_optimize m = (0, m\<lparr>m_Status := 2, m_ObjVal := Some (15 / 2)\<rparr>)"

text \<open>An optimizer run that ends with the status "infeasible".\<close>

definition example_infeasible :: "grb_model \<Rightarrow> int \<times> grb_model" where
  "example_infeasible m = (0, m\<lparr>m_Status := 3, m_ObjVal := None\<rparr>)"

text \<open>An optimizer run that ends with the status 13, which \<^verbatim>\<open>mip_status\<close> does not list.\<close>

definition example_suboptimal :: "grb_model \<Rightarrow> int \<times> grb_model" where
  "example_suboptimal m = (0, m\<lparr>m_Status := 13\<rparr>)"

section \<open>Facts about the log and the native calls\<close>

lemma check_zero [simp]: "check msg 0 = Inr ()"
  by (simp add: check_def)

lemma model_logged [simp]: "model (logged k w) = model w"
  by (simp add: logged_def)

lemma calls_logged [simp]: "calls (logged k w) = calls w @ [k]"
  by (simp add: logged_def)

lemma obj_constant_term_logged [simp]: "obj_constant_term (logged k w) = obj_constant_term w"
  by (simp add: logged_def)

lemma checked_GRBupdatemodel [simp]:
  "checked p GRBupdatemodel w = (Inr (), logged Call_GRBupdatemodel w)"
  by (simp add: checked_def GRBupdatemodel_def)

lemma checked_GRBsetdblattrelement:
  assumes "attr \<in> {''Obj'', ''LB'', ''UB''}" and "in_range i (m_vars (model w))"
  shows "checked Env_model (GRBsetdblattrelement attr i v) w =
     (Inr (), (logged (Call_GRBsetdblattrelement attr i v) w)
        \<lparr>model := (model w)\<lparr>m_vars := (m_vars (model w))[nat i := set_var_attr attr v (m_vars (model w) ! nat i)]\<rparr>\<rparr>)"
  using assms by (simp add: checked_def GRBsetdblattrelement_def Let_def)

lemma checked_out_GRBgetdblattrelement:
  assumes "attr \<in> {''Obj'', ''LB'', ''UB''}" and "in_range i (m_vars (model w))"
  shows "checked_out Env_model (GRBgetdblattrelement attr i) w =
     (Inr (get_var_attr attr (m_vars (model w) ! nat i)), logged (Call_GRBgetdblattrelement attr i) w)"
  using assms by (simp add: checked_out_def GRBgetdblattrelement_def Let_def)

section \<open>The error-translation routine\<close>

lemma errors_keys_distinct: "distinct (map fst errors_items)"
  by (simp add: errors_items_def)

lemma check_listed:
  "errors error = Some name \<Longrightarrow> error \<noteq> 0 \<Longrightarrow>
   check msg error = Inl (MIPSolverException (''Gurobi: '' @ str_bytes msg @ '' ('' @ name @ '')''))"
  by (simp add: check_def)

lemma check_unlisted:
  "errors error = None \<Longrightarrow> error \<noteq> 0 \<Longrightarrow> check msg error = Inl (KeyError error)"
  by (simp add: check_def)

lemma check_index_out_of_range:
  "check ''Index out of range'' 10006 =
     Inl (MIPSolverException ''Gurobi: b'Index out of range' (GRB_ERROR_INDEX_OUT_OF_RANGE)'')"
  by (simp add: check_def errors_def errors_items_def str_bytes_def repr_byte_def Let_def)

text \<open>
  C1. The claim: every nonzero native error code becomes a solver exception, and a code
  that is not in the table \<^verbatim>\<open>errors\<close> still becomes a solver exception, with a generic
  "unknown error" message. The code does the first for the twenty codes of the table
  (\<open>check_listed\<close>). For a code outside the table the subscript \<^verbatim>\<open>errors[error]\<close> has
  no default: at the native error code 10021, which the table does not list, \<open>check\<close>
  raises \<^verbatim>\<open>KeyError\<close>, not a solver exception. (\<^verbatim>\<open>solve\<close> reads its own table with
  \<^verbatim>\<open>mip_status.get\<close> and a default.)
\<close>

theorem check_unlisted_code_KeyError: "check msg 10021 = Inl (KeyError 10021)"
  by (simp add: check_def errors_def errors_items_def)

section \<open>Solving\<close>

lemma solve_run:
  assumes opt: "optimize (model w) = (0, m)"
  shows "solve c optimize w =
      (if m_Status m \<noteq> GRB_OPTIMAL c then
         (Inl (MIPSolverException (''Gurobi: '' @
            (case mip_status c (m_Status m) of Some reason \<Rightarrow> reason
             | None \<Rightarrow> ''unknown error during call to GRBoptimize : '' @ str_int (m_Status m)))),
          logged (Call_GRBgetintattr ''Status'') ((logged Call_GRBoptimize w)\<lparr>model := m\<rparr>))
       else (Inr 0, logged (Call_GRBgetintattr ''Status'') ((logged Call_GRBoptimize w)\<lparr>model := m\<rparr>)))"
  using opt
  by (simp add: solve_def py_then_def checked_def checked_out_def GRBoptimize_def GRBgetintattr_def
      py_raise_def py_return_def Let_def split: option.split)

lemma solve_keeps_constant_term:
  "obj_constant_term (snd (solve c optimize w)) = obj_constant_term w"
  by (simp add: solve_def py_then_def checked_def checked_out_def GRBoptimize_def GRBgetintattr_def
      py_raise_def py_return_def Let_def split: option.split prod.split sum.split)

text \<open>
  C3. When the native optimizer returns without an error, \<^verbatim>\<open>solve\<close> succeeds for the
  status "optimal" and raises a solver exception for every other status. With the seven
  keys of \<^verbatim>\<open>mip_status\<close> distinct, the message after the prefix "Gurobi: " is the reason
  the table gives for the status, and for a status that is not a key it is the generic
  text followed by the decimal status code.
\<close>

theorem solve_status:
  assumes d: "distinct [GRB_INFEASIBLE c, GRB_INF_OR_UNBD c, GRB_UNBOUNDED c, GRB_ITERATION_LIMIT c,
                        GRB_NODE_LIMIT c, GRB_TIME_LIMIT c, GRB_SOLUTION_LIMIT c]"
    and opt: "optimize (model w) = (0, m)"
  shows "(m_Status m = GRB_OPTIMAL c \<longrightarrow> fst (solve c optimize w) = Inr 0) \<and>
         (m_Status m \<noteq> GRB_OPTIMAL c \<longrightarrow>
            (\<exists>reason. fst (solve c optimize w) = Inl (MIPSolverException (''Gurobi: '' @ reason)) \<and>
               (m_Status m = GRB_INFEASIBLE c \<longrightarrow> reason = ''The problem is infeasible'') \<and>
               (m_Status m = GRB_INF_OR_UNBD c \<longrightarrow> reason = ''The problem is infeasible or unbounded'') \<and>
               (m_Status m = GRB_UNBOUNDED c \<longrightarrow> reason = ''The problem is unbounded'') \<and>
               (m_Status m = GRB_ITERATION_LIMIT c \<longrightarrow> reason = ''The iteration limit has been reached'') \<and>
               (m_Status m = GRB_NODE_LIMIT c \<longrightarrow> reason = ''The node limit has been reached'') \<and>
               (m_Status m = GRB_TIME_LIMIT c \<longrightarrow> reason = ''The time limit has been reached'') \<and>
               (m_Status m = GRB_SOLUTION_LIMIT c \<longrightarrow> reason = ''The solution limit has been reached'') \<and>
               (m_Status m \<notin> {GRB_INFEASIBLE c, GRB_INF_OR_UNBD c, GRB_UNBOUNDED c, GRB_ITERATION_LIMIT c,
                                GRB_NODE_LIMIT c, GRB_TIME_LIMIT c, GRB_SOLUTION_LIMIT c} \<longrightarrow>
                  reason = ''unknown error during call to GRBoptimize : '' @ str_int (m_Status m))))"
  using d solve_run [of optimize w m c] opt by (auto simp: mip_status_def)

lemma str_int_13: "str_int 13 = ''13''"
  by code_simp

theorem solve_status_witness:
  "distinct [GRB_INFEASIBLE gurobi_c_h, GRB_INF_OR_UNBD gurobi_c_h, GRB_UNBOUNDED gurobi_c_h,
             GRB_ITERATION_LIMIT gurobi_c_h, GRB_NODE_LIMIT gurobi_c_h, GRB_TIME_LIMIT gurobi_c_h,
             GRB_SOLUTION_LIMIT gurobi_c_h] \<and>
   example_infeasible (model example_backend) = (0, (model example_backend)\<lparr>m_Status := 3, m_ObjVal := None\<rparr>) \<and>
   fst (solve gurobi_c_h example_infeasible example_backend) =
     Inl (MIPSolverException ''Gurobi: The problem is infeasible'') \<and>
   example_suboptimal (model example_backend) = (0, (model example_backend)\<lparr>m_Status := 13\<rparr>) \<and>
   fst (solve gurobi_c_h example_suboptimal example_backend) =
     Inl (MIPSolverException ''Gurobi: unknown error during call to GRBoptimize : 13'') \<and>
   example_optimize (model example_backend) =
     (0, (model example_backend)\<lparr>m_Status := 2, m_ObjVal := Some (15 / 2)\<rparr>) \<and>
   fst (solve gurobi_c_h example_optimize example_backend) = Inr 0"
proof -
  have d: "distinct [GRB_INFEASIBLE gurobi_c_h, GRB_INF_OR_UNBD gurobi_c_h, GRB_UNBOUNDED gurobi_c_h,
             GRB_ITERATION_LIMIT gurobi_c_h, GRB_NODE_LIMIT gurobi_c_h, GRB_TIME_LIMIT gurobi_c_h,
             GRB_SOLUTION_LIMIT gurobi_c_h]"
    by (simp add: gurobi_c_h_def)
  have o1: "example_infeasible (model example_backend) =
              (0, (model example_backend)\<lparr>m_Status := 3, m_ObjVal := None\<rparr>)"
    by (simp add: example_infeasible_def)
  have o2: "example_suboptimal (model example_backend) = (0, (model example_backend)\<lparr>m_Status := 13\<rparr>)"
    by (simp add: example_suboptimal_def)
  have o3: "example_optimize (model example_backend) =
              (0, (model example_backend)\<lparr>m_Status := 2, m_ObjVal := Some (15 / 2)\<rparr>)"
    by (simp add: example_optimize_def)
  have r1: "fst (solve gurobi_c_h example_infeasible example_backend) =
              Inl (MIPSolverException ''Gurobi: The problem is infeasible'')"
    using solve_status [of gurobi_c_h example_infeasible example_backend "(model example_backend)\<lparr>m_Status := 3, m_ObjVal := None\<rparr>"] d o1
    by (auto simp: gurobi_c_h_def)
  have r2: "fst (solve gurobi_c_h example_suboptimal example_backend) =
              Inl (MIPSolverException ''Gurobi: unknown error during call to GRBoptimize : 13'')"
    using solve_status [of gurobi_c_h example_suboptimal example_backend "(model example_backend)\<lparr>m_Status := 13\<rparr>"] d o2
    by (auto simp: gurobi_c_h_def str_int_13)
  have r3: "fst (solve gurobi_c_h example_optimize example_backend) = Inr 0"
    using solve_status [of gurobi_c_h example_optimize example_backend "(model example_backend)\<lparr>m_Status := 2, m_ObjVal := Some (15 / 2)\<rparr>"] d o3
    by (auto simp: gurobi_c_h_def)
  show ?thesis
    using d o1 r1 o2 r2 o3 r3 by blast
qed

section \<open>The objective\<close>

text \<open>
  C9. In \<^verbatim>\<open>objective_coefficient\<close> the coefficient 0 takes the branch of \<^verbatim>\<open>None\<close>:
  the call with 0 is the call with \<^verbatim>\<open>None\<close> (same result, same object afterwards), the
  model is unchanged, and the one native call made is the read of the attribute.
\<close>

theorem objective_coefficient_zero_is_read:
  "objective_coefficient variable (Some 0) w = objective_coefficient variable None w \<and>
   model (snd (objective_coefficient variable (Some 0) w)) = model w \<and>
   calls (snd (objective_coefficient variable (Some 0) w)) = calls w @ [Call_GRBgetdblattrelement ''Obj'' variable]"
  by (simp add: objective_coefficient_def py_then_def py_return_def checked_out_def GRBgetdblattrelement_def
      Let_def split: sum.split)

lemma objective_coefficient_nonzero_writes:
  "v \<noteq> 0 \<Longrightarrow> in_range i (m_vars (model w)) \<Longrightarrow>
   objective_coefficient i (Some v) w =
     (Inr None, logged Call_GRBupdatemodel ((logged (Call_GRBsetdblattrelement ''Obj'' i v) w)
        \<lparr>model := (model w)\<lparr>m_vars := (m_vars (model w))[nat i := set_var_attr ''Obj'' v (m_vars (model w) ! nat i)]\<rparr>\<rparr>))"
  by (simp add: objective_coefficient_def py_then_def py_return_def checked_GRBsetdblattrelement)

lemma objective_coefficient_read:
  assumes "in_range i (m_vars (model w))"
  shows "objective_coefficient i None w =
           (Inr (Some (var_Obj (m_vars (model w) ! nat i))), logged (Call_GRBgetdblattrelement ''Obj'' i) w)"
  using assms
  by (simp add: objective_coefficient_def py_then_def py_return_def checked_out_GRBgetdblattrelement get_var_attr_def)

lemma set_objective_loop_run:
  assumes "0 \<le> i" and "nat i + length coeff \<le> length (m_vars (model w))"
  shows "\<exists>w'. set_objective_loop i coeff w = (Inr (), w') \<and>
           obj_constant_term w' = obj_constant_term w \<and>
           length (m_vars (model w')) = length (m_vars (model w)) \<and>
           (\<forall>j < length (m_vars (model w)).
              var_Obj (m_vars (model w') ! j) =
                (if nat i \<le> j \<and> j < nat i + length coeff then coeff ! (j - nat i)
                 else var_Obj (m_vars (model w) ! j)))"
  using assms
proof (induction coeff arbitrary: i w)
  case Nil
  then show ?case by simp
next
  case (Cons v rest)
  let ?w1 = "(logged (Call_GRBsetdblattrelement ''Obj'' i v) w)
        \<lparr>model := (model w)\<lparr>m_vars := (m_vars (model w))[nat i := set_var_attr ''Obj'' v (m_vars (model w) ! nat i)]\<rparr>\<rparr>"
  have rng: "in_range i (m_vars (model w))"
    using Cons.prems by (simp add: in_range_def)
  have step: "checked Env_model (GRBsetdblattrelement ''Obj'' i v) w = (Inr (), ?w1)"
    using rng by (simp add: checked_GRBsetdblattrelement)
  have len1: "length (m_vars (model ?w1)) = length (m_vars (model w))" by simp
  have "0 \<le> i + 1" and "nat (i + 1) + length rest \<le> length (m_vars (model ?w1))"
    using Cons.prems by (simp_all add: nat_add_distrib)
  from Cons.IH[OF this] obtain w' where
    run: "set_objective_loop (i + 1) rest ?w1 = (Inr (), w')"
    and oct: "obj_constant_term w' = obj_constant_term ?w1"
    and len: "length (m_vars (model w')) = length (m_vars (model ?w1))"
    and val: "\<forall>j < length (m_vars (model ?w1)).
              var_Obj (m_vars (model w') ! j) =
                (if nat (i + 1) \<le> j \<and> j < nat (i + 1) + length rest then rest ! (j - nat (i + 1))
                 else var_Obj (m_vars (model ?w1) ! j))"
    by blast
  have ni: "nat (i + 1) = Suc (nat i)" using Cons.prems by simp
  have "\<forall>j < length (m_vars (model w)).
              var_Obj (m_vars (model w') ! j) =
                (if nat i \<le> j \<and> j < nat i + length (v # rest) then (v # rest) ! (j - nat i)
                 else var_Obj (m_vars (model w) ! j))"
  proof (intro allI impI)
    fix j assume j: "j < length (m_vars (model w))"
    show "var_Obj (m_vars (model w') ! j) =
                (if nat i \<le> j \<and> j < nat i + length (v # rest) then (v # rest) ! (j - nat i)
                 else var_Obj (m_vars (model w) ! j))"
    proof (cases "j = nat i")
      case True
      then show ?thesis using val j len1 ni by (simp add: set_var_attr_def)
    next
      case False
      then show ?thesis using val j len1 ni
        by (auto simp: nth_Cons' Suc_diff_Suc)
    qed
  qed
  then show ?case using step run oct len by simp
qed

lemma get_objective_value_run:
  assumes "m_ObjVal (model w) = Some v"
  shows "get_objective_value w = (Inr (v + obj_constant_term w), logged (Call_GRBgetdblattr ''ObjVal'') w)"
  using assms
  by (simp add: get_objective_value_def py_then_def checked_out_def GRBgetdblattr_def Let_def)

lemma set_objective_run:
  assumes "length coeff \<le> length (m_vars (model w))"
  shows "\<exists>w'. set_objective coeff d w = (Inr (), w') \<and> obj_constant_term w' = d \<and>
           length (m_vars (model w')) = length (m_vars (model w)) \<and>
           (\<forall>j < length (m_vars (model w)).
              var_Obj (m_vars (model w') ! j) = (if j < length coeff then coeff ! j else var_Obj (m_vars (model w) ! j)))"
proof -
  from set_objective_loop_run[of 0 coeff w] assms obtain w1 where
    run: "set_objective_loop 0 coeff w = (Inr (), w1)"
    and len: "length (m_vars (model w1)) = length (m_vars (model w))"
    and val: "\<forall>j < length (m_vars (model w)).
              var_Obj (m_vars (model w1) ! j) = (if j < length coeff then coeff ! j else var_Obj (m_vars (model w) ! j))"
    by auto
  show ?thesis
    using run len val by (simp add: set_objective_def py_then_def)
qed

text \<open>
  C6. For a coefficient list no longer than the number of variables, \<^verbatim>\<open>set_objective\<close>
  succeeds; afterwards \<^verbatim>\<open>objective_coefficient(k)\<close> returns the \<open>k\<close>-th coefficient of
  the list for every \<open>k\<close> below its length; and after any successful \<^verbatim>\<open>solve\<close> (of any
  optimizer) that leaves the native objective value \<open>v\<close>, \<^verbatim>\<open>get_objective_value\<close>
  returns \<open>v + d\<close>.
\<close>

theorem set_objective_round_trip:
  assumes "length coeff \<le> length (m_vars (model w))"
  shows "\<exists>w1. set_objective coeff d w = (Inr (), w1) \<and>
           (\<forall>k < length coeff. fst (objective_coefficient (int k) None w1) = Inr (Some (coeff ! k))) \<and>
           (\<forall>c optimize v.
              fst (solve c optimize w1) = Inr 0 \<and> m_ObjVal (model (snd (solve c optimize w1))) = Some v \<longrightarrow>
              fst (get_objective_value (snd (solve c optimize w1))) = Inr (v + d))"
proof -
  from set_objective_run[OF assms, of d] obtain w1 where
    run: "set_objective coeff d w = (Inr (), w1)" and oct: "obj_constant_term w1 = d"
    and len: "length (m_vars (model w1)) = length (m_vars (model w))"
    and val: "\<forall>j < length (m_vars (model w)).
              var_Obj (m_vars (model w1) ! j) = (if j < length coeff then coeff ! j else var_Obj (m_vars (model w) ! j))"
    by blast
  have rd: "\<forall>k < length coeff. fst (objective_coefficient (int k) None w1) = Inr (Some (coeff ! k))"
  proof (intro allI impI)
    fix k assume k: "k < length coeff"
    then have "in_range (int k) (m_vars (model w1))" using assms len by (simp add: in_range_def)
    then show "fst (objective_coefficient (int k) None w1) = Inr (Some (coeff ! k))"
      using val k assms by (simp add: objective_coefficient_read)
  qed
  have ov: "\<forall>c optimize v.
              fst (solve c optimize w1) = Inr 0 \<and> m_ObjVal (model (snd (solve c optimize w1))) = Some v \<longrightarrow>
              fst (get_objective_value (snd (solve c optimize w1))) = Inr (v + d)"
    using oct by (simp add: get_objective_value_run solve_keeps_constant_term)
  show ?thesis using run rd ov by blast
qed

lemma solve_example_optimize:
  "solve gurobi_c_h example_optimize w =
     (Inr 0, logged (Call_GRBgetintattr ''Status'')
        ((logged Call_GRBoptimize w)\<lparr>model := (model w)\<lparr>m_Status := 2, m_ObjVal := Some (15 / 2)\<rparr>\<rparr>))"
  by (simp add: solve_run [of _ _ "(model w)\<lparr>m_Status := 2, m_ObjVal := Some (15 / 2)\<rparr>"]
      example_optimize_def gurobi_c_h_def)

theorem set_objective_round_trip_witness:
  "length [2, 5 :: real] \<le> length (m_vars (model example_backend)) \<and>
   (\<exists>w1. set_objective [2, 5] 7 example_backend = (Inr (), w1) \<and>
      fst (objective_coefficient 0 None w1) = Inr (Some 2) \<and>
      fst (objective_coefficient 1 None w1) = Inr (Some 5) \<and>
      fst (solve gurobi_c_h example_optimize w1) = Inr 0 \<and>
      m_ObjVal (model (snd (solve gurobi_c_h example_optimize w1))) = Some (15 / 2) \<and>
      fst (get_objective_value (snd (solve gurobi_c_h example_optimize w1))) = Inr (15 / 2 + 7))"
proof -
  have h: "length [2, 5 :: real] \<le> length (m_vars (model example_backend))"
    by (simp add: example_backend_def)
  from set_objective_round_trip[OF h, of 7] obtain w1 where
    run: "set_objective [2, 5] 7 example_backend = (Inr (), w1)"
    and rd: "\<forall>k < length [2, 5 :: real]. fst (objective_coefficient (int k) None w1) = Inr (Some ([2, 5] ! k))"
    and ov: "\<forall>c optimize v.
              fst (solve c optimize w1) = Inr 0 \<and> m_ObjVal (model (snd (solve c optimize w1))) = Some v \<longrightarrow>
              fst (get_objective_value (snd (solve c optimize w1))) = Inr (v + 7)"
    by blast
  have r0: "fst (objective_coefficient 0 None w1) = Inr (Some 2)"
    using rd[rule_format, of 0] by simp
  have r1: "fst (objective_coefficient 1 None w1) = Inr (Some 5)"
    using rd[rule_format, of 1] by simp
  have s: "fst (solve gurobi_c_h example_optimize w1) = Inr 0"
    by (simp add: solve_example_optimize)
  have o: "m_ObjVal (model (snd (solve gurobi_c_h example_optimize w1))) = Some (15 / 2)"
    by (simp add: solve_example_optimize)
  have g: "fst (get_objective_value (snd (solve gurobi_c_h example_optimize w1))) = Inr (15 / 2 + 7)"
    using ov[rule_format, of gurobi_c_h example_optimize "15 / 2"] s o by simp
  show ?thesis using h run r0 r1 s o g by blast
qed

section \<open>Bounds of a variable\<close>

lemma variable_upper_bound_write:
  assumes "in_range i (m_vars (model w))" and "value \<noteq> PyFalse"
  shows "variable_upper_bound c i value w =
     (Inr None, logged Call_GRBupdatemodel
        ((logged (Call_GRBsetdblattrelement ''UB'' i (case value of PyNum v \<Rightarrow> v | _ \<Rightarrow> GRB_INFINITY c)) w)
           \<lparr>model := (model w)\<lparr>m_vars := (m_vars (model w))
              [nat i := (m_vars (model w) ! nat i)\<lparr>var_UB := (case value of PyNum v \<Rightarrow> v | _ \<Rightarrow> GRB_INFINITY c)\<rparr>]\<rparr>\<rparr>))"
  using assms
  by (simp add: variable_upper_bound_def py_then_def py_return_def checked_GRBsetdblattrelement set_var_attr_def)

lemma variable_upper_bound_read:
  assumes "in_range i (m_vars (model w))"
  shows "variable_upper_bound c i PyFalse w =
     (Inr (if var_UB (m_vars (model w) ! nat i) \<ge> GRB_INFINITY c then None
           else Some (var_UB (m_vars (model w) ! nat i))),
      logged (Call_GRBgetdblattrelement ''UB'' i) w)"
  using assms
  by (simp add: variable_upper_bound_def py_then_def py_return_def checked_out_GRBgetdblattrelement get_var_attr_def)

lemma variable_lower_bound_write:
  assumes "in_range i (m_vars (model w))" and "value \<noteq> PyFalse"
  shows "variable_lower_bound c i value w =
     (Inr None, logged Call_GRBupdatemodel
        ((logged (Call_GRBsetdblattrelement ''LB'' i (case value of PyNum v \<Rightarrow> v | _ \<Rightarrow> - GRB_INFINITY c)) w)
           \<lparr>model := (model w)\<lparr>m_vars := (m_vars (model w))
              [nat i := (m_vars (model w) ! nat i)\<lparr>var_LB := (case value of PyNum v \<Rightarrow> v | _ \<Rightarrow> - GRB_INFINITY c)\<rparr>]\<rparr>\<rparr>))"
  using assms
  by (simp add: variable_lower_bound_def py_then_def py_return_def checked_GRBsetdblattrelement set_var_attr_def)

lemma variable_lower_bound_read:
  assumes "in_range i (m_vars (model w))"
  shows "variable_lower_bound c i PyFalse w =
     (Inr (if var_LB (m_vars (model w) ! nat i) \<le> - GRB_INFINITY c then None
           else Some (var_LB (m_vars (model w) ! nat i))),
      logged (Call_GRBgetdblattrelement ''LB'' i) w)"
  using assms
  by (simp add: variable_lower_bound_def py_then_def py_return_def checked_out_GRBgetdblattrelement get_var_attr_def)

lemma in_range_nth: "in_range i xs \<Longrightarrow> nat i < length xs"
  by (simp add: in_range_def nat_less_iff)

text \<open>
  C10. For a variable index in range and a positive \<^verbatim>\<open>GRB_INFINITY\<close>: the bound
  accessors called with 0.0 write the bound 0.0 (the native calls made are the write of
  the attribute and the model update), and the read that follows returns 0.0; called with
  \<^verbatim>\<open>None\<close> they write the infinity sentinel of their side, and the read that follows
  returns \<^verbatim>\<open>None\<close>; called with \<^verbatim>\<open>False\<close> they leave the model unchanged and make
  one native call, the read of the attribute.
\<close>

theorem variable_bound_zero_is_written:
  assumes r: "in_range i (m_vars (model w))" and inf: "0 < GRB_INFINITY c"
  shows "(\<exists>w1. variable_upper_bound c i (PyNum 0) w = (Inr None, w1) \<and>
            calls w1 = calls w @ [Call_GRBsetdblattrelement ''UB'' i 0, Call_GRBupdatemodel] \<and>
            fst (variable_upper_bound c i PyFalse w1) = Inr (Some 0)) \<and>
         (\<exists>w1. variable_lower_bound c i (PyNum 0) w = (Inr None, w1) \<and>
            calls w1 = calls w @ [Call_GRBsetdblattrelement ''LB'' i 0, Call_GRBupdatemodel] \<and>
            fst (variable_lower_bound c i PyFalse w1) = Inr (Some 0)) \<and>
         (\<exists>w1. variable_upper_bound c i PyNone w = (Inr None, w1) \<and>
            calls w1 = calls w @ [Call_GRBsetdblattrelement ''UB'' i (GRB_INFINITY c), Call_GRBupdatemodel] \<and>
            fst (variable_upper_bound c i PyFalse w1) = Inr None) \<and>
         (\<exists>w1. variable_lower_bound c i PyNone w = (Inr None, w1) \<and>
            calls w1 = calls w @ [Call_GRBsetdblattrelement ''LB'' i (- GRB_INFINITY c), Call_GRBupdatemodel] \<and>
            fst (variable_lower_bound c i PyFalse w1) = Inr None) \<and>
         model (snd (variable_upper_bound c i PyFalse w)) = model w \<and>
         calls (snd (variable_upper_bound c i PyFalse w)) = calls w @ [Call_GRBgetdblattrelement ''UB'' i] \<and>
         model (snd (variable_lower_bound c i PyFalse w)) = model w \<and>
         calls (snd (variable_lower_bound c i PyFalse w)) = calls w @ [Call_GRBgetdblattrelement ''LB'' i]"
proof -
  have n: "nat i < length (m_vars (model w))" using r by (rule in_range_nth)
  have u0: "\<exists>w1. variable_upper_bound c i (PyNum 0) w = (Inr None, w1) \<and>
            calls w1 = calls w @ [Call_GRBsetdblattrelement ''UB'' i 0, Call_GRBupdatemodel] \<and>
            fst (variable_upper_bound c i PyFalse w1) = Inr (Some 0)"
    using r n inf by (simp add: variable_upper_bound_write variable_upper_bound_read in_range_def)
  have l0: "\<exists>w1. variable_lower_bound c i (PyNum 0) w = (Inr None, w1) \<and>
            calls w1 = calls w @ [Call_GRBsetdblattrelement ''LB'' i 0, Call_GRBupdatemodel] \<and>
            fst (variable_lower_bound c i PyFalse w1) = Inr (Some 0)"
    using r n inf by (simp add: variable_lower_bound_write variable_lower_bound_read in_range_def)
  have un: "\<exists>w1. variable_upper_bound c i PyNone w = (Inr None, w1) \<and>
            calls w1 = calls w @ [Call_GRBsetdblattrelement ''UB'' i (GRB_INFINITY c), Call_GRBupdatemodel] \<and>
            fst (variable_upper_bound c i PyFalse w1) = Inr None"
    using r n by (simp add: variable_upper_bound_write variable_upper_bound_read in_range_def)
  have ln: "\<exists>w1. variable_lower_bound c i PyNone w = (Inr None, w1) \<and>
            calls w1 = calls w @ [Call_GRBsetdblattrelement ''LB'' i (- GRB_INFINITY c), Call_GRBupdatemodel] \<and>
            fst (variable_lower_bound c i PyFalse w1) = Inr None"
    using r n by (simp add: variable_lower_bound_write variable_lower_bound_read in_range_def)
  have rd: "model (snd (variable_upper_bound c i PyFalse w)) = model w \<and>
         calls (snd (variable_upper_bound c i PyFalse w)) = calls w @ [Call_GRBgetdblattrelement ''UB'' i] \<and>
         model (snd (variable_lower_bound c i PyFalse w)) = model w \<and>
         calls (snd (variable_lower_bound c i PyFalse w)) = calls w @ [Call_GRBgetdblattrelement ''LB'' i]"
    using r by (simp add: variable_upper_bound_read variable_lower_bound_read)
  show ?thesis using u0 l0 un ln rd by blast
qed

theorem variable_bound_zero_is_written_witness:
  "in_range 0 (m_vars (model example_backend)) \<and> 0 < GRB_INFINITY gurobi_c_h \<and>
   (\<exists>w1. variable_upper_bound gurobi_c_h 0 (PyNum 0) example_backend = (Inr None, w1) \<and>
      fst (variable_upper_bound gurobi_c_h 0 PyFalse w1) = Inr (Some 0)) \<and>
   (\<exists>w1. variable_lower_bound gurobi_c_h 0 PyNone example_backend = (Inr None, w1) \<and>
      fst (variable_lower_bound gurobi_c_h 0 PyFalse w1) = Inr None)"
proof -
  have r: "in_range 0 (m_vars (model example_backend))"
    by (simp add: in_range_def example_backend_def)
  have inf: "0 < GRB_INFINITY gurobi_c_h"
    by (simp add: gurobi_c_h_def)
  show ?thesis
    using variable_bound_zero_is_written [OF r inf] r inf by blast
qed

section \<open>Adding variables and rows\<close>

lemma ncols_run [simp]:
  "ncols w = (int (length (m_vars (model w))), logged (Call_GRBgetintattr ''NumVars'') w)"
  by (simp add: ncols_def checked_out_def GRBgetintattr_def Let_def)

lemma nrows_run [simp]:
  "nrows w = (int (length (m_constrs (model w))), logged (Call_GRBgetintattr ''NumConstrs'') w)"
  by (simp add: nrows_def checked_out_def GRBgetintattr_def Let_def)

lemma check_nonzero: "error \<noteq> 0 \<Longrightarrow> \<exists>e. check msg error = Inl e"
  by (simp add: check_def split: option.split)

lemma checked_GRBaddvar:
  "checked Env_model (GRBaddvar col obj lb ub vtype name) w =
     (if \<exists>i \<in> set (map fst col). \<not> in_range i (m_constrs (model w))
      then (check (errormsg (m_env (model w))) 10006, logged (Call_GRBaddvar col obj lb ub vtype name) w)
      else (Inr (), (logged (Call_GRBaddvar col obj lb ub vtype name) w)
              \<lparr>model := (model w)
                \<lparr>m_vars := m_vars (model w) @
                   [\<lparr>var_Obj = obj, var_LB = lb, var_UB = ub, var_VType = vtype, var_VarName = name\<rparr>],
                 m_constrs := add_to_rows (int (length (m_vars (model w)))) col (m_constrs (model w))\<rparr>\<rparr>))"
  by (simp add: checked_def GRBaddvar_def Let_def get_env_def)

lemma add_variable_run:
  assumes "(of_bool binary :: nat) + of_bool continuous' + of_bool integer \<le> 1"
  shows "add_variable c lb ub binary continuous' integer obj name coefficients w =
     py_then (checked Env_model
                (GRBaddvar (case coefficients of None \<Rightarrow> [] | Some cs \<Rightarrow> cs) obj
                   (case lb of None \<Rightarrow> - GRB_INFINITY c | Some l \<Rightarrow> l)
                   (case ub of None \<Rightarrow> GRB_INFINITY c | Some u \<Rightarrow> u)
                   (if binary then GRB_BINARY c
                    else if continuous' \<or> \<not> integer then GRB_CONTINUOUS c
                    else GRB_INTEGER c)
                   (c_str (case name of None \<Rightarrow> ''x_'' @ replicate (length (m_vars (model w))) (CHR 0x00)
                           | Some s \<Rightarrow> s))))
       (\<lambda>_. py_then (checked Env_model GRBupdatemodel)
       (\<lambda>_ w2. case ncols w2 of (n, w3) \<Rightarrow> (Inr (n - 1), w3)))
       (case name of None \<Rightarrow> logged (Call_GRBgetintattr ''NumVars'') w | Some s \<Rightarrow> w)"
  using assms
  by (cases binary; cases continuous'; cases integer; cases name)
     (simp_all add: add_variable_def Let_def)

lemma add_variable_success_type:
  assumes ok: "fst (add_variable c lb ub False False False obj name coefficients w) = Inr n"
  shows "m_vars (model (snd (add_variable c lb ub False False False obj name coefficients w))) =
           m_vars (model w) @
             [\<lparr>var_Obj = obj,
               var_LB = (case lb of None \<Rightarrow> - GRB_INFINITY c | Some l \<Rightarrow> l),
               var_UB = (case ub of None \<Rightarrow> GRB_INFINITY c | Some u \<Rightarrow> u),
               var_VType = GRB_CONTINUOUS c,
               var_VarName = c_str (case name of None \<Rightarrow> ''x_'' @ replicate (length (m_vars (model w))) (CHR 0x00)
                                     | Some s \<Rightarrow> s)\<rparr>] \<and>
         n = int (length (m_vars (model w)))"
proof -
  have f: "(of_bool False :: nat) + of_bool False + of_bool False \<le> 1" by simp
  obtain e where e: "check (errormsg (m_env (model w))) 10006 = Inl e"
    using check_nonzero [of 10006] by auto
  show ?thesis
    using ok e
    by (cases name)
       (auto simp: add_variable_run [OF f] py_then_def checked_GRBaddvar split: if_splits)
qed

text \<open>
  C4. A call of \<^verbatim>\<open>add_variable\<close> with more than one of the three flags raises
  \<^verbatim>\<open>ValueError\<close> and leaves the object as it was: no native call is logged and the model,
  hence \<^verbatim>\<open>ncols\<close>, is unchanged. A call with none of the flags is the call with
  \<^verbatim>\<open>continuous=True\<close>; when it succeeds it returns the former \<^verbatim>\<open>ncols\<close>, \<^verbatim>\<open>ncols\<close>
  has grown by one, and the type of the new variable is \<^verbatim>\<open>GRB_CONTINUOUS\<close>.
\<close>

theorem add_variable_flags:
  "(1 < (of_bool binary :: nat) + of_bool continuous' + of_bool integer \<longrightarrow>
      add_variable c lb ub binary continuous' integer obj name coefficients w =
        (Inl (ValueError ''Exactly one parameter of 'binary', 'integer' and 'continuous' must be 'True'.''), w)) \<and>
   add_variable c lb ub False False False obj name coefficients w =
     add_variable c lb ub False True False obj name coefficients w \<and>
   (fst (add_variable c lb ub False False False obj name coefficients w) = Inr n \<longrightarrow>
      n = fst (ncols w) \<and>
      fst (ncols (snd (add_variable c lb ub False False False obj name coefficients w))) = fst (ncols w) + 1 \<and>
      var_VType (last (m_vars (model (snd (add_variable c lb ub False False False obj name coefficients w))))) =
        GRB_CONTINUOUS c)"
proof (intro conjI impI)
  assume "1 < (of_bool binary :: nat) + of_bool continuous' + of_bool integer"
  then show "add_variable c lb ub binary continuous' integer obj name coefficients w =
        (Inl (ValueError ''Exactly one parameter of 'binary', 'integer' and 'continuous' must be 'True'.''), w)"
    by (cases binary; cases continuous'; cases integer) (simp_all add: add_variable_def py_raise_def Let_def)
next
  show "add_variable c lb ub False False False obj name coefficients w =
     add_variable c lb ub False True False obj name coefficients w"
    by (simp add: add_variable_def Let_def)
next
  assume ok: "fst (add_variable c lb ub False False False obj name coefficients w) = Inr n"
  note t = add_variable_success_type [OF ok]
  show "n = fst (ncols w)" using t by simp
  show "fst (ncols (snd (add_variable c lb ub False False False obj name coefficients w))) = fst (ncols w) + 1"
    using t by simp
  show "var_VType (last (m_vars (model (snd (add_variable c lb ub False False False obj name coefficients w))))) =
        GRB_CONTINUOUS c"
    using t by simp
qed


theorem add_variable_flags_witness:
  "1 < (of_bool False :: nat) + of_bool True + of_bool True \<and>
   add_variable gurobi_c_h (Some 0) None False True True 0 None None example_backend =
     (Inl (ValueError ''Exactly one parameter of 'binary', 'integer' and 'continuous' must be 'True'.''),
      example_backend) \<and>
   fst (add_variable gurobi_c_h (Some 0) None False False False 0 None None example_backend) = Inr 2 \<and>
   fst (ncols (snd (add_variable gurobi_c_h (Some 0) None False False False 0 None None example_backend))) = 3 \<and>
   var_VType (last (m_vars (model (snd
     (add_variable gurobi_c_h (Some 0) None False False False 0 None None example_backend))))) = CHR ''C''"
proof -
  have f: "(of_bool False :: nat) + of_bool False + of_bool False \<le> 1" by simp
  have h1: "1 < (of_bool False :: nat) + of_bool True + of_bool True" by simp
  have h2: "fst (add_variable gurobi_c_h (Some 0) None False False False 0 None None example_backend) = Inr 2"
    by (simp add: add_variable_run [OF f] py_then_def checked_GRBaddvar example_backend_def)
  have n: "fst (ncols example_backend) = 2"
    by (simp add: example_backend_def)
  have g: "GRB_CONTINUOUS gurobi_c_h = CHR ''C''"
    by (simp add: gurobi_c_h_def)
  note t = add_variable_flags [of False True True gurobi_c_h "Some 0" None 0 None None example_backend 2]
  have a: "add_variable gurobi_c_h (Some 0) None False True True 0 None None example_backend =
     (Inl (ValueError ''Exactly one parameter of 'binary', 'integer' and 'continuous' must be 'True'.''),
      example_backend)"
    using t h1 by blast
  have b: "fst (ncols (snd (add_variable gurobi_c_h (Some 0) None False False False 0 None None example_backend))) =
             fst (ncols example_backend) + 1 \<and>
           var_VType (last (m_vars (model (snd
             (add_variable gurobi_c_h (Some 0) None False False False 0 None None example_backend))))) =
             GRB_CONTINUOUS gurobi_c_h"
    using t h2 by blast
  show ?thesis
    using h1 a h2 b n g by (simp del: ncols_run)
qed

lemma calls_native_GRBaddconstr:
  "calls (snd (native (GRBaddconstr row sense rhs name) w)) = calls w @ [Call_GRBaddconstr row sense rhs name]"
  by (simp add: native_def GRBaddconstr_def Let_def)

lemma calls_native_GRBaddrangeconstr:
  "calls (snd (native (GRBaddrangeconstr c row lo up name) w)) = calls w @ [Call_GRBaddrangeconstr row lo up name]"
  by (simp add: native_def GRBaddrangeconstr_def Let_def)

lemma snd_py_then_check_env:
  "snd (py_then f (\<lambda>error. check_env p error) w) = snd (f w)"
  by (simp add: py_then_def check_env_def split: prod.split sum.split)

text \<open>
  C5. \<^verbatim>\<open>add_linear_constraint\<close> makes exactly one native call, chosen by the bounds:
  only an upper bound, \<^verbatim>\<open>GRBaddconstr\<close> with the sense \<^verbatim>\<open>GRB_LESS_EQUAL\<close> and that
  bound; only a lower bound, \<^verbatim>\<open>GRBaddconstr\<close> with \<^verbatim>\<open>GRB_GREATER_EQUAL\<close> and that
  bound; two equal bounds, \<^verbatim>\<open>GRBaddconstr\<close> with \<^verbatim>\<open>GRB_EQUAL\<close>; a lower bound below
  the upper bound, \<^verbatim>\<open>GRBaddrangeconstr\<close> with the two bounds. With no bound it raises
  \<^verbatim>\<open>ValueError\<close> and leaves the object, and so the log, as it was.
\<close>

theorem add_linear_constraint_dispatch:
  "calls (snd (add_linear_constraint c coefficients None (Some u) name w)) =
     calls w @ [Call_GRBaddconstr coefficients (GRB_LESS_EQUAL c) u (c_str (case name of None \<Rightarrow> [] | Some s \<Rightarrow> s))] \<and>
   calls (snd (add_linear_constraint c coefficients (Some l) None name w)) =
     calls w @ [Call_GRBaddconstr coefficients (GRB_GREATER_EQUAL c) l (c_str (case name of None \<Rightarrow> [] | Some s \<Rightarrow> s))] \<and>
   calls (snd (add_linear_constraint c coefficients (Some b) (Some b) name w)) =
     calls w @ [Call_GRBaddconstr coefficients (GRB_EQUAL c) b (c_str (case name of None \<Rightarrow> [] | Some s \<Rightarrow> s))] \<and>
   (l < u \<longrightarrow>
      calls (snd (add_linear_constraint c coefficients (Some l) (Some u) name w)) =
        calls w @ [Call_GRBaddrangeconstr coefficients l u (c_str (case name of None \<Rightarrow> [] | Some s \<Rightarrow> s))]) \<and>
   add_linear_constraint c coefficients None None name w =
     (Inl (ValueError ''at least one of 'upper_bound' or 'lower_bound' must be set''), w)"
  by (simp add: add_linear_constraint_def snd_py_then_check_env calls_native_GRBaddconstr
      calls_native_GRBaddrangeconstr py_raise_def)

theorem add_linear_constraint_dispatch_witness:
  "(12 / 10 :: real) < 17 / 10 \<and>
   calls (snd (add_linear_constraint gurobi_c_h [(0, 1), (1, 1)] (Some (12 / 10)) (Some (17 / 10)) None
                 example_backend)) =
     [Call_GRBaddrangeconstr [(0, 1), (1, 1)] (12 / 10) (17 / 10) []]"
proof -
  have h: "(12 / 10 :: real) < 17 / 10" by simp
  have e: "calls example_backend = []" by (simp add: example_backend_def)
  show ?thesis
    using add_linear_constraint_dispatch [where c = gurobi_c_h and coefficients = "[(0, 1), (1, 1)]"
        and name = None and w = example_backend and l = "12 / 10" and u = "17 / 10"] h e
    by (simp add: c_str_def)
qed

section \<open>Bounds of a row\<close>

lemma row_bounds_shapes:
  "(\<exists>e. fst (row_bounds index w) = Inl e) \<or>
   (\<exists>d. fst (row_bounds index w) = Inr (Some d, None) \<or>
        fst (row_bounds index w) = Inr (None, Some d) \<or>
        fst (row_bounds index w) = Inr (Some d, Some d))"
  by (auto simp: row_bounds_def py_then_def py_return_def split: prod.splits sum.splits)

lemma row_bounds_never_two_sided:
  "l \<noteq> u \<Longrightarrow> fst (row_bounds index w) \<noteq> Inr (Some l, Some u)"
  using row_bounds_shapes [of index w] by auto

lemma checked_GRBaddconstr:
  "checked Env_model (GRBaddconstr row sense rhs name) w =
     (if \<exists>j \<in> set (map fst row). \<not> in_range j (m_vars (model w))
      then (check (errormsg (m_env (model w))) 10006, logged (Call_GRBaddconstr row sense rhs name) w)
      else (Inr (), (logged (Call_GRBaddconstr row sense rhs name) w)
              \<lparr>model := (model w)
                \<lparr>m_constrs := m_constrs (model w) @
                   [\<lparr>constr_row = row, constr_Sense = sense, constr_RHS = rhs, constr_ConstrName = name\<rparr>]\<rparr>\<rparr>))"
  by (simp add: checked_def GRBaddconstr_def Let_def get_env_def)

lemma checked_GRBaddrangeconstr:
  "checked Env_model (GRBaddrangeconstr c row lo up name) w =
     (if \<exists>j \<in> set (map fst row). \<not> in_range j (m_vars (model w))
      then (check (errormsg (m_env (model w))) 10006, logged (Call_GRBaddrangeconstr row lo up name) w)
      else (Inr (), (logged (Call_GRBaddrangeconstr row lo up name) w)
              \<lparr>model := (model w)
                \<lparr>m_vars := m_vars (model w) @
                   [\<lparr>var_Obj = 0, var_LB = 0, var_UB = up - lo, var_VType = GRB_CONTINUOUS c,
                     var_VarName = []\<rparr>],
                 m_constrs := m_constrs (model w) @
                   [\<lparr>constr_row = row @ [(int (length (m_vars (model w))), - 1)], constr_Sense = GRB_EQUAL c,
                     constr_RHS = lo, constr_ConstrName = name\<rparr>]\<rparr>\<rparr>))"
  by (simp add: checked_def GRBaddrangeconstr_def Let_def get_env_def)

lemma py_then_native_check_env:
  "py_then (native call) (\<lambda>error. check_env p error) = checked p call"
  by (rule ext) (simp add: py_then_def native_def check_env_def checked_def split: prod.split)

lemma add_linear_constraint_run:
  "add_linear_constraint c coefficients lower_bound upper_bound name =
     (case (lower_bound, upper_bound) of
        (None, None) \<Rightarrow> py_raise (ValueError ''at least one of 'upper_bound' or 'lower_bound' must be set'')
      | (None, Some u) \<Rightarrow>
          checked Env_model (GRBaddconstr coefficients (GRB_LESS_EQUAL c) u (c_str (case name of None \<Rightarrow> [] | Some s \<Rightarrow> s)))
      | (Some l, None) \<Rightarrow>
          checked Env_model (GRBaddconstr coefficients (GRB_GREATER_EQUAL c) l (c_str (case name of None \<Rightarrow> [] | Some s \<Rightarrow> s)))
      | (Some l, Some u) \<Rightarrow>
          if l = u then
            checked Env_model (GRBaddconstr coefficients (GRB_EQUAL c) l (c_str (case name of None \<Rightarrow> [] | Some s \<Rightarrow> s)))
          else
            checked Env_model (GRBaddrangeconstr c coefficients l u (c_str (case name of None \<Rightarrow> [] | Some s \<Rightarrow> s))))"
  by (cases lower_bound; cases upper_bound)
     (simp_all add: add_linear_constraint_def py_then_native_check_env)

lemma row_bounds_run:
  assumes "in_range index (m_constrs (model w))"
  shows "fst (row_bounds index w) =
     Inr (if constr_Sense (m_constrs (model w) ! nat index) = CHR ''>''
            then (Some (constr_RHS (m_constrs (model w) ! nat index)), None)
          else if constr_Sense (m_constrs (model w) ! nat index) = CHR ''<''
            then (None, Some (constr_RHS (m_constrs (model w) ! nat index)))
          else (Some (constr_RHS (m_constrs (model w) ! nat index)),
                Some (constr_RHS (m_constrs (model w) ! nat index))))"
  using assms
  by (simp add: row_bounds_def py_then_def py_return_def checked_out_def GRBgetcharattrelement_def
      GRBgetdblattrelement_def Let_def)

lemma row_bounds_after_one_sided:
  assumes "\<forall>j \<in> set (map fst coefficients). in_range j (m_vars (model w))"
  shows "fst (py_then (add_linear_constraint gurobi_c_h coefficients None (Some u) name)
                (\<lambda>_. row_bounds (int (length (m_constrs (model w))))) w) = Inr (None, Some u)"
    and "fst (py_then (add_linear_constraint gurobi_c_h coefficients (Some l) None name)
                (\<lambda>_. row_bounds (int (length (m_constrs (model w))))) w) = Inr (Some l, None)"
    and "fst (py_then (add_linear_constraint gurobi_c_h coefficients (Some b) (Some b) name)
                (\<lambda>_. row_bounds (int (length (m_constrs (model w))))) w) = Inr (Some b, Some b)"
  using assms
  by (simp_all add: add_linear_constraint_run checked_GRBaddconstr py_then_def row_bounds_run
      in_range_def gurobi_c_h_def)

lemma col_bounds_run:
  assumes "in_range index (m_vars (model w))"
  shows "fst (col_bounds c index w) =
     Inr (if var_LB (m_vars (model w) ! nat index) \<le> - GRB_INFINITY c then None
          else Some (var_LB (m_vars (model w) ! nat index)),
          if var_UB (m_vars (model w) ! nat index) \<ge> GRB_INFINITY c then None
          else Some (var_UB (m_vars (model w) ! nat index)))"
  using assms
  by (simp add: col_bounds_def py_then_def py_return_def checked_out_GRBgetdblattrelement get_var_attr_def)

lemma col_bounds_after_setters:
  assumes r: "in_range i (m_vars (model w))"
    and lo: "- GRB_INFINITY c < lo" and hi: "hi < GRB_INFINITY c"
  shows "fst (py_then (variable_lower_bound c i (PyNum lo))
           (\<lambda>_. py_then (variable_upper_bound c i (PyNum hi)) (\<lambda>_. col_bounds c i)) w) = Inr (Some lo, Some hi)"
    and "fst (py_then (variable_lower_bound c i PyNone)
           (\<lambda>_. py_then (variable_upper_bound c i (PyNum hi)) (\<lambda>_. col_bounds c i)) w) = Inr (None, Some hi)"
    and "fst (py_then (variable_lower_bound c i (PyNum lo))
           (\<lambda>_. py_then (variable_upper_bound c i PyNone) (\<lambda>_. col_bounds c i)) w) = Inr (Some lo, None)"
  using r lo hi in_range_nth [OF r]
  by (simp_all add: py_then_def variable_lower_bound_write variable_upper_bound_write col_bounds_run in_range_def)

lemma row_bounds_after_range_example:
  "fst (py_then (add_linear_constraint gurobi_c_h [(0, 1), (1, 1)] (Some (12 / 10)) (Some (17 / 10)) None)
          (\<lambda>_. row_bounds 0) example_backend) = Inr (Some (12 / 10), Some (12 / 10))"
  by (simp add: add_linear_constraint_run checked_GRBaddrangeconstr py_then_def row_bounds_run
      example_backend_def in_range_def gurobi_c_h_def)

text \<open>
  C2. The claim: \<^verbatim>\<open>row_bounds\<close> and \<^verbatim>\<open>col_bounds\<close> return the pair of bounds that was
  written, also for a range row with a lower bound below its upper bound. For the bounds
  of a variable (\<open>col_bounds_after_setters\<close>) and for rows with one bound or two equal
  bounds (\<open>row_bounds_after_one_sided\<close>) the code does so. For a range row it does not:
  \<^verbatim>\<open>row_bounds\<close> reads one sense and one right-hand side \<open>d\<close> and returns
  \<open>(d, None)\<close>, \<open>(None, d)\<close> or \<open>(d, d)\<close> (\<open>row_bounds_shapes\<close>). After
  \<^verbatim>\<open>add_linear_constraint([(0,1), (1,1)], 1.2, 1.7)\<close> on the concrete backend it returns
  \<open>(1.2, 1.2)\<close>; and whatever the native constants, the row, the index and the state of
  the object, it cannot return \<open>(1.2, 1.7)\<close>.
\<close>

theorem row_bounds_loses_range:
  "fst (py_then (add_linear_constraint gurobi_c_h [(0, 1), (1, 1)] (Some (12 / 10)) (Some (17 / 10)) None)
          (\<lambda>_. row_bounds 0) example_backend) = Inr (Some (12 / 10), Some (12 / 10)) \<and>
   (\<forall>c coefficients name index w.
      fst (py_then (add_linear_constraint c coefficients (Some (12 / 10)) (Some (17 / 10)) name)
             (\<lambda>_. row_bounds index) w) \<noteq> Inr (Some (12 / 10), Some (17 / 10)))"
proof -
  have ne: "(12 / 10 :: real) \<noteq> 17 / 10" by simp
  have "fst (py_then (add_linear_constraint c coefficients (Some (12 / 10)) (Some (17 / 10)) name)
             (\<lambda>_. row_bounds index) w) \<noteq> Inr (Some (12 / 10), Some (17 / 10))"
    for c coefficients name index w
    using row_bounds_never_two_sided [OF ne]
    by (simp add: py_then_def split: prod.split sum.split)
  then show ?thesis
    using row_bounds_after_range_example by blast
qed

section \<open>Solver parameters\<close>

lemma checked_out_calls_GRBgetintparam:
  "calls (snd (checked_out Env_model (GRBgetintparam p name) w)) = calls w @ [Call_GRBgetintparam p name]"
  by (simp add: checked_out_def GRBgetintparam_def Let_def split: option.split sum.split)

lemma checked_out_calls_GRBgetdblparam:
  "calls (snd (checked_out Env_model (GRBgetdblparam p name) w)) = calls w @ [Call_GRBgetdblparam p name]"
  by (simp add: checked_out_def GRBgetdblparam_def Let_def split: option.split sum.split)

lemma checked_out_calls_GRBgetstrparam:
  "calls (snd (checked_out Env_model (GRBgetstrparam p name) w)) = calls w @ [Call_GRBgetstrparam p name]"
  by (simp add: checked_out_def GRBgetstrparam_def Let_def split: option.split sum.split)

lemma calls_put_env [simp]: "calls (put_env p e w) = calls w"
  by (simp add: put_env_def split: env_ptr.split)

lemma checked_calls_GRBsetintparam:
  "calls (snd (checked Env_model (GRBsetintparam p name v) w)) = calls w @ [Call_GRBsetintparam p name v]"
  by (simp add: checked_def GRBsetintparam_def env_setintparam_def Let_def split: prod.split)

lemma checked_calls_GRBsetdblparam:
  "calls (snd (checked Env_model (GRBsetdblparam p name v) w)) = calls w @ [Call_GRBsetdblparam p name v]"
  by (simp add: checked_def GRBsetdblparam_def Let_def split: prod.split)

lemma checked_calls_GRBsetstrparam:
  "calls (snd (checked Env_model (GRBsetstrparam p name v) w)) = calls w @ [Call_GRBsetstrparam p name v]"
  by (simp add: checked_def GRBsetstrparam_def Let_def split: prod.split)

lemma snd_py_then_return:
  "snd (py_then f (\<lambda>x. py_return (g x)) w) = snd (f w)"
  by (simp add: py_then_def py_return_def split: prod.split sum.split)

lemma solver_parameter_canonical:
  "solver_parameter name value w = solver_parameter (canonical_name name) value w"
  by (simp add: solver_parameter_def canonical_name_def py_lower_def lower_char_def Let_def)


lemma parameters_type_keys_distinct: "distinct (map fst parameters_type_items)"
  by (simp add: parameters_type_items_def)

lemma parameters_type_TimeLimit: "parameters_type ''TimeLimit'' = Some ''double''"
  by (simp add: parameters_type_def parameters_type_items_def)

lemma parameters_type_LogFile: "parameters_type ''LogFile'' = Some ''string''"
  by (simp add: parameters_type_def parameters_type_items_def)

lemma parameters_type_VarBranch: "parameters_type ''VarBranch'' = Some ''int''"
  by (simp add: parameters_type_def parameters_type_items_def)

lemma parameters_type_TIMELIMIT: "parameters_type ''TIMELIMIT'' = None"
  by (simp add: parameters_type_def parameters_type_items_def)

lemma parameters_type_kinds:
  "list_all (\<lambda>(name, t). t = ''int'' \<or> t = ''double'' \<or> t = ''string'') parameters_type_items"
  by (simp add: parameters_type_items_def)

lemma parameters_type_kind:
  assumes "parameters_type name = Some t"
  shows "t = ''int'' \<or> t = ''double'' \<or> t = ''string''"
proof -
  have "(name, t) \<in> set parameters_type_items"
    using assms by (auto simp: parameters_type_def dest: map_of_SomeD)
  then show ?thesis
    using parameters_type_kinds by (auto simp: list_all_iff)
qed

lemma py_lower_examples:
  "py_lower ''timelimit'' = ''timelimit''"
  "py_lower ''TIMELIMIT'' = ''timelimit''"
  "py_lower ''LOGFILE'' = ''logfile''"
  "py_lower ''LogFile'' = ''logfile''"
  "py_lower ''TimeLimit'' = ''timelimit''"
  "py_lower ''VarBranch'' = ''varbranch''"
  by code_simp+

lemma canonical_name_examples:
  "canonical_name ''timelimit'' = ''TimeLimit''"
  "canonical_name ''TIMELIMIT'' = ''TIMELIMIT''"
  "canonical_name ''LOGFILE'' = ''LogFile''"
  "canonical_name ''LogFile'' = ''LogFile''"
  "canonical_name ''TimeLimit'' = ''TimeLimit''"
  "canonical_name ''VarBranch'' = ''VarBranch''"
  by (simp_all add: canonical_name_def py_lower_examples)

lemma solver_parameter_unfold:
  "solver_parameter name value =
     (case parameters_type (canonical_name name) of
           None \<Rightarrow> py_raise (ValueError ''This parameter is not available. Enabling it may not be so hard, though.'')
         | Some t \<Rightarrow>
             if t = ''int'' then
               (if value = Py_None then
                  py_then (checked_out Env_model (GRBgetintparam Env_model (canonical_name name)))
                    (\<lambda>tmp_int. py_return (Py_int tmp_int))
                else
                  py_then (converted (as_int value))
                    (\<lambda>v. py_then (checked Env_model (GRBsetintparam Env_model (canonical_name name) v))
                    (\<lambda>_. py_return Py_None)))
             else if t = ''double'' then
               (if value = Py_None then
                  py_then (checked_out Env_model (GRBgetdblparam Env_model (canonical_name name)))
                    (\<lambda>tmp_dbl. py_return (Py_float tmp_dbl))
                else
                  py_then (converted (as_double value))
                    (\<lambda>v. py_then (checked Env_model (GRBsetdblparam Env_model (canonical_name name) v))
                    (\<lambda>_. py_return Py_None)))
             else if t = ''string'' then
               (if value = Py_None then
                  py_then (checked_out Env_model (GRBgetstrparam Env_model (canonical_name name)))
                    (\<lambda>c_name. py_return (Py_str c_name))
                else
                  py_then (converted (str_to_bytes value))
                    (\<lambda>v. py_then (checked Env_model (GRBsetstrparam Env_model (canonical_name name) (c_str v)))
                    (\<lambda>_. py_return Py_None)))
             else py_raise (RuntimeError ''This should not happen.''))"
  by (simp only: solver_parameter_def canonical_name_def Let_def)

lemma py_then_converted: "py_then (converted (Inr v)) g w = g v w"
  by (simp add: py_then_def converted_def)

lemma solver_parameter_unknown:
  assumes "parameters_type (canonical_name name) = None"
  shows "solver_parameter name value w =
           (Inl (ValueError ''This parameter is not available. Enabling it may not be so hard, though.''), w)"
  using assms by (simp add: solver_parameter_unfold py_raise_def)

lemma solver_parameter_int:
  assumes "parameters_type (canonical_name name) = Some ''int''"
  shows "calls (snd (solver_parameter name Py_None w)) = calls w @ [Call_GRBgetintparam Env_model (canonical_name name)]"
    and "calls (snd (solver_parameter name (Py_int i) w)) = calls w @ [Call_GRBsetintparam Env_model (canonical_name name) i]"
  using assms
  by (simp_all add: solver_parameter_unfold snd_py_then_return py_then_converted
      checked_out_calls_GRBgetintparam checked_calls_GRBsetintparam as_int_def)

lemma solver_parameter_double:
  assumes "parameters_type (canonical_name name) = Some ''double''"
  shows "calls (snd (solver_parameter name Py_None w)) = calls w @ [Call_GRBgetdblparam Env_model (canonical_name name)]"
    and "calls (snd (solver_parameter name (Py_float r) w)) = calls w @ [Call_GRBsetdblparam Env_model (canonical_name name) r]"
    and "calls (snd (solver_parameter name (Py_int i) w)) =
           calls w @ [Call_GRBsetdblparam Env_model (canonical_name name) (real_of_int i)]"
  using assms
  by (simp_all add: solver_parameter_unfold snd_py_then_return py_then_converted
      checked_out_calls_GRBgetdblparam checked_calls_GRBsetdblparam as_double_def)

lemma solver_parameter_string:
  assumes "parameters_type (canonical_name name) = Some ''string''"
  shows "calls (snd (solver_parameter name Py_None w)) = calls w @ [Call_GRBgetstrparam Env_model (canonical_name name)]"
    and "calls (snd (solver_parameter name (Py_str s) w)) = calls w @ [Call_GRBsetstrparam Env_model (canonical_name name) (c_str s)]"
  using assms
  by (simp_all add: solver_parameter_unfold snd_py_then_return py_then_converted
      checked_out_calls_GRBgetstrparam checked_calls_GRBsetstrparam str_to_bytes_def)

text \<open>
  C8. With \<open>canonical_name name\<close> the name after the two renamings: a name that is not a
  key of \<^verbatim>\<open>parameters_type\<close> raises \<^verbatim>\<open>ValueError\<close> and leaves the object, and so the
  log, as it was; every kind in the table is one of "int", "double" and "string"; for a
  key of each kind a read makes exactly one native call, the getter of that kind, and a
  write of a value of that kind exactly one native call, the setter of that kind. The
  name "timelimit" is renamed to "TimeLimit"; every name whose lower-case form is
  "logfile" is renamed to "LogFile"; any other name is left as it is, so that
  "TIMELIMIT" is not a key and is refused.
\<close>

theorem solver_parameter_dispatch:
  "(parameters_type (canonical_name name) = None \<longrightarrow>
      solver_parameter name val w =
        (Inl (ValueError ''This parameter is not available. Enabling it may not be so hard, though.''), w)) \<and>
   (\<forall>t. parameters_type (canonical_name name) = Some t \<longrightarrow> t = ''int'' \<or> t = ''double'' \<or> t = ''string'') \<and>
   (parameters_type (canonical_name name) = Some ''int'' \<longrightarrow>
      calls (snd (solver_parameter name Py_None w)) =
        calls w @ [Call_GRBgetintparam Env_model (canonical_name name)] \<and>
      calls (snd (solver_parameter name (Py_int i) w)) =
        calls w @ [Call_GRBsetintparam Env_model (canonical_name name) i]) \<and>
   (parameters_type (canonical_name name) = Some ''double'' \<longrightarrow>
      calls (snd (solver_parameter name Py_None w)) =
        calls w @ [Call_GRBgetdblparam Env_model (canonical_name name)] \<and>
      calls (snd (solver_parameter name (Py_float r) w)) =
        calls w @ [Call_GRBsetdblparam Env_model (canonical_name name) r] \<and>
      calls (snd (solver_parameter name (Py_int i) w)) =
        calls w @ [Call_GRBsetdblparam Env_model (canonical_name name) (real_of_int i)]) \<and>
   (parameters_type (canonical_name name) = Some ''string'' \<longrightarrow>
      calls (snd (solver_parameter name Py_None w)) =
        calls w @ [Call_GRBgetstrparam Env_model (canonical_name name)] \<and>
      calls (snd (solver_parameter name (Py_str s) w)) =
        calls w @ [Call_GRBsetstrparam Env_model (canonical_name name) (c_str s)]) \<and>
   (name = ''timelimit'' \<longrightarrow> canonical_name name = ''TimeLimit'') \<and>
   (py_lower name = ''logfile'' \<longrightarrow> canonical_name name = ''LogFile'') \<and>
   (name \<noteq> ''timelimit'' \<and> py_lower name \<noteq> ''logfile'' \<longrightarrow> canonical_name name = name) \<and>
   solver_parameter ''TIMELIMIT'' val w =
     (Inl (ValueError ''This parameter is not available. Enabling it may not be so hard, though.''), w) \<and>
   solver_parameter ''LOGFILE'' val w = solver_parameter ''LogFile'' val w"
proof -
  have lf: "py_lower name = ''logfile'' \<longrightarrow> canonical_name name = ''LogFile''"
    using py_lower_examples(1) by (auto simp: canonical_name_def)
  have al: "solver_parameter ''LOGFILE'' val w = solver_parameter ''LogFile'' val w"
    using solver_parameter_canonical [of "''LOGFILE''" val w] by (simp only: canonical_name_examples)
  have up: "solver_parameter ''TIMELIMIT'' val w =
     (Inl (ValueError ''This parameter is not available. Enabling it may not be so hard, though.''), w)"
    by (rule solver_parameter_unknown) (simp add: canonical_name_examples parameters_type_TIMELIMIT)
  have un: "parameters_type (canonical_name name) = None \<longrightarrow>
      solver_parameter name val w =
        (Inl (ValueError ''This parameter is not available. Enabling it may not be so hard, though.''), w)"
    by (simp add: solver_parameter_unknown)
  have kd: "\<forall>t. parameters_type (canonical_name name) = Some t \<longrightarrow> t = ''int'' \<or> t = ''double'' \<or> t = ''string''"
    using parameters_type_kind by blast
  have cn: "(name = ''timelimit'' \<longrightarrow> canonical_name name = ''TimeLimit'') \<and>
            (name \<noteq> ''timelimit'' \<and> py_lower name \<noteq> ''logfile'' \<longrightarrow> canonical_name name = name)"
    by (simp add: canonical_name_def)
  show ?thesis
    using lf al up un kd cn
    by (simp add: solver_parameter_int solver_parameter_double solver_parameter_string)
qed

theorem solver_parameter_dispatch_witness:
  "parameters_type (canonical_name ''Verbosity'') = None \<and>
   solver_parameter ''Verbosity'' (Py_int 1) example_backend =
     (Inl (ValueError ''This parameter is not available. Enabling it may not be so hard, though.''),
      example_backend) \<and>
   parameters_type (canonical_name ''VarBranch'') = Some ''int'' \<and>
   calls (snd (solver_parameter ''VarBranch'' (Py_int 1) example_backend)) =
     [Call_GRBsetintparam Env_model ''VarBranch'' 1] \<and>
   parameters_type (canonical_name ''timelimit'') = Some ''double'' \<and>
   calls (snd (solver_parameter ''timelimit'' (Py_int 10) example_backend)) =
     [Call_GRBsetdblparam Env_model ''TimeLimit'' 10] \<and>
   parameters_type (canonical_name ''LOGFILE'') = Some ''string'' \<and>
   calls (snd (solver_parameter ''LOGFILE'' Py_None example_backend)) =
     [Call_GRBgetstrparam Env_model ''LogFile'']"
proof -
  have e: "calls example_backend = []" by (simp add: example_backend_def)
  have v: "canonical_name ''Verbosity'' = ''Verbosity''"
    by (simp add: canonical_name_def) code_simp
  have h0: "parameters_type (canonical_name ''Verbosity'') = None"
    by (simp add: v parameters_type_def parameters_type_items_def)
  have h1: "parameters_type (canonical_name ''VarBranch'') = Some ''int''"
    by (simp add: canonical_name_examples parameters_type_VarBranch)
  have h2: "parameters_type (canonical_name ''timelimit'') = Some ''double''"
    by (simp add: canonical_name_examples parameters_type_TimeLimit)
  have h3: "parameters_type (canonical_name ''LOGFILE'') = Some ''string''"
    by (simp add: canonical_name_examples parameters_type_LogFile)
  have a0: "solver_parameter ''Verbosity'' (Py_int 1) example_backend =
     (Inl (ValueError ''This parameter is not available. Enabling it may not be so hard, though.''),
      example_backend)"
    using solver_parameter_dispatch [where name = "''Verbosity''" and val = "Py_int 1" and w = example_backend] h0
    by blast
  have a1: "calls (snd (solver_parameter ''VarBranch'' (Py_int 1) example_backend)) =
     [Call_GRBsetintparam Env_model ''VarBranch'' 1]"
    using solver_parameter_dispatch [where name = "''VarBranch''" and i = 1 and w = example_backend] h1 e
    by (simp add: canonical_name_examples)
  have a2: "calls (snd (solver_parameter ''timelimit'' (Py_int 10) example_backend)) =
     [Call_GRBsetdblparam Env_model ''TimeLimit'' 10]"
    using solver_parameter_dispatch [where name = "''timelimit''" and i = 10 and w = example_backend] h2 e
    by (simp add: canonical_name_examples)
  have a3: "calls (snd (solver_parameter ''LOGFILE'' Py_None example_backend)) =
     [Call_GRBgetstrparam Env_model ''LogFile'']"
  proof -
    have "calls (snd (solver_parameter ''LOGFILE'' Py_None example_backend)) =
            calls example_backend @ [Call_GRBgetstrparam Env_model (canonical_name ''LOGFILE'')]"
      using solver_parameter_dispatch [where name = "''LOGFILE''" and w = example_backend] h3 by blast
    then show ?thesis using e by (simp add: canonical_name_examples)
  qed
  show ?thesis using h0 a0 h1 a1 h2 a2 h3 a3 by blast
qed

section \<open>Construction and copy\<close>

lemma is_maximization_run:
  "is_maximization w = (m_ModelSense (model w) = - 1, logged (Call_GRBgetintattr ''ModelSense'') w)"
  by (simp add: is_maximization_def checked_out_def GRBgetintattr_def Let_def)

lemma checked_GRBsetintattr_ModelSense:
  "checked Env_model (GRBsetintattr ''ModelSense'' v) w =
     (Inr (), (logged (Call_GRBsetintattr ''ModelSense'' v) w)\<lparr>model := (model w)\<lparr>m_ModelSense := v\<rparr>\<rparr>)"
  by (simp add: checked_def GRBsetintattr_def Let_def)

lemma obj_constant_term_put_env [simp]: "obj_constant_term (put_env p e w) = obj_constant_term w"
  by (simp add: put_env_def split: env_ptr.split)

lemma set_verbosity_keeps:
  "set_verbosity level w = (r, w') \<Longrightarrow>
     obj_constant_term w' = obj_constant_term w \<and> m_vars (model w') = m_vars (model w) \<and>
     m_constrs (model w') = m_constrs (model w) \<and> m_ModelSense (model w') = m_ModelSense (model w)"
  by (auto simp: set_verbosity_def checked_def GRBsetintparam_def env_setintparam_def put_env_def Let_def
      split: prod.splits if_splits)

lemma set_sense_run:
  "set_sense sense w =
     (Inr (), logged Call_GRBupdatemodel
        ((logged (Call_GRBsetintattr ''ModelSense'' (if sense = 1 then - 1 else 1)) w)
           \<lparr>model := (model w)\<lparr>m_ModelSense := (if sense = 1 then - 1 else 1)\<rparr>\<rparr>))"
  by (simp add: set_sense_def py_then_def checked_GRBsetintattr_ModelSense)

lemma init_result:
  assumes "GurobiBackend_init ns maximization = Inr p"
  shows "obj_constant_term p = 0 \<and> m_vars (model p) = [] \<and> m_constrs (model p) = [] \<and>
         m_ModelSense (model p) = (if maximization then - 1 else 1)"
proof -
  obtain w r w' where
    sv: "set_verbosity 0 w = (r, w')" and p: "p = w'\<lparr>obj_constant_term := 0\<rparr>"
    and w: "m_vars (model w) = [] \<and> m_constrs (model w) = [] \<and>
            m_ModelSense (model w) = (if maximization then - 1 else 1)"
    using assms
    by (auto simp: GurobiBackend_init_def py_then_def set_sense_run checked_GRBsetintattr_ModelSense new_model_def
        split: option.splits sum.splits prod.splits if_splits)
  from set_verbosity_keeps [OF sv] p w show ?thesis
    by auto
qed

lemma set_verbosity_run:
  "set_verbosity level w =
     (if ''OutputFlag'' \<in> dom (int_params (m_env (model w)))
      then (Inr (), put_env Env_model
              ((m_env (model w))\<lparr>int_params := (int_params (m_env (model w)))(''OutputFlag'' \<mapsto> (if level \<noteq> 0 then 1 else 0))\<rparr>)
              (logged (Call_GRBsetintparam Env_model ''OutputFlag'' (if level \<noteq> 0 then 1 else 0)) w))
      else (check (errormsg (m_env (model w))) 10007,
            logged (Call_GRBsetintparam Env_model ''OutputFlag'' (if level \<noteq> 0 then 1 else 0)) w))"
  by (simp add: set_verbosity_def checked_def GRBsetintparam_def env_setintparam_def get_env_def put_env_def Let_def)

lemma init_example_start:
  "\<exists>p. GurobiBackend_init example_start maximization = Inr p"
  by (simp add: GurobiBackend_init_def example_start_def example_env_def env_setintparam_def py_then_def
      set_sense_run checked_GRBsetintattr_ModelSense set_verbosity_run new_model_def)

lemma problem_name_read:
  "problem_name None w =
     (Inr (Some (case m_ModelName (model w) of None \<Rightarrow> [] | Some v \<Rightarrow> v)),
      logged (Call_GRBgetstrattr ''ModelName'') w)"
  by (simp add: problem_name_def py_then_def py_return_def checked_out_def GRBgetstrattr_def Let_def)

lemma checked_GRBsetstrattr_ModelName:
  "checked Env_model (GRBsetstrattr ''ModelName'' s) w =
     (Inr (), (logged (Call_GRBsetstrattr ''ModelName'' s) w)\<lparr>model := (model w)\<lparr>m_ModelName := Some s\<rparr>\<rparr>)"
  by (simp add: checked_def GRBsetstrattr_def Let_def)

lemma problem_name_write:
  "problem_name (Some s) w =
     (Inr None, logged Call_GRBupdatemodel
        ((logged (Call_GRBsetstrattr ''ModelName'' (c_str s)) w)\<lparr>model := (model w)\<lparr>m_ModelName := Some (c_str s)\<rparr>\<rparr>))"
  by (simp add: problem_name_def py_then_def py_return_def checked_GRBsetstrattr_ModelName)

lemma copy_run:
  "GurobiBackend_copy ns w =
     (case GurobiBackend_init ns (m_ModelSense (model w) = - 1) of
        Inl x \<Rightarrow> (Inl x, logged (Call_GRBgetintattr ''ModelSense'') w)
      | Inr p \<Rightarrow>
          (Inr (logged Call_GRBupdatemodel
                 ((logged (Call_GRBsetstrattr ''ModelName'' (c_str (case m_ModelName (model w) of None \<Rightarrow> [] | Some v \<Rightarrow> v)))
                     (logged Call_GRBgetenv (p\<lparr>model := model w\<rparr>)))
                    \<lparr>model := (model w)\<lparr>m_ModelName := Some (c_str (case m_ModelName (model w) of None \<Rightarrow> [] | Some v \<Rightarrow> v))\<rparr>\<rparr>)),
           logged (Call_GRBgetstrattr ''ModelName'')
             (logged Call_GRBcopymodel (logged (Call_GRBgetintattr ''ModelSense'') w))))"
  by (simp add: GurobiBackend_copy_def is_maximization_run problem_name_read problem_name_write Let_def
      split: sum.split)

lemma copy_result:
  assumes "GurobiBackend_copy ns w = (Inr p, w')"
  shows "obj_constant_term p = 0 \<and>
         model p = (model w)\<lparr>m_ModelName := Some (c_str (case m_ModelName (model w) of None \<Rightarrow> [] | Some v \<Rightarrow> v))\<rparr> \<and>
         model w' = model w \<and> obj_constant_term w' = obj_constant_term w"
  using assms init_result [of ns "m_ModelSense (model w) = - 1"]
  by (auto simp: copy_run split: sum.splits)

text \<open>
  C7. The claim: the copy agrees with the source on \<^verbatim>\<open>ncols\<close>, \<^verbatim>\<open>nrows\<close>, the bounds,
  the whole objective with its constant term, and the sense. \<^verbatim>\<open>__copy__\<close> constructs
  a new object, whose \<^verbatim>\<open>__init__\<close> sets \<^verbatim>\<open>obj_constant_term\<close> to 0.0, and replaces its
  model by the native copy of the model; it never copies \<^verbatim>\<open>obj_constant_term\<close>. On the
  concrete backend after \<^verbatim>\<open>set_objective([2, 5], 7)\<close>: the copy succeeds and agrees with
  the source on \<^verbatim>\<open>ncols\<close>, \<^verbatim>\<open>nrows\<close>, the sense and the objective coefficients (the
  model of a copy is the model of its source, \<open>copy_result\<close>), but the constant term
  of the source is 7 and that of the copy is 0, and for the native objective value 7.5
  the source reports 14.5 and the copy 7.5.
\<close>

theorem copy_forgets_constant_term:
  "\<exists>w1 p w2.
     set_objective [2, 5] 7 example_backend = (Inr (), w1) \<and>
     GurobiBackend_copy example_start w1 = (Inr p, w2) \<and>
     fst (ncols p) = fst (ncols w1) \<and> fst (nrows p) = fst (nrows w1) \<and>
     fst (is_maximization p) = fst (is_maximization w1) \<and>
     fst (objective_coefficient 0 None p) = fst (objective_coefficient 0 None w1) \<and>
     fst (objective_coefficient 1 None p) = fst (objective_coefficient 1 None w1) \<and>
     obj_constant_term w1 = 7 \<and> obj_constant_term p = 0 \<and>
     fst (get_objective_value (snd (solve gurobi_c_h example_optimize w1))) = Inr (15 / 2 + 7) \<and>
     fst (get_objective_value (snd (solve gurobi_c_h example_optimize p))) = Inr (15 / 2)"
proof -
  have h: "length [2, 5 :: real] \<le> length (m_vars (model example_backend))"
    by (simp add: example_backend_def)
  from set_objective_run [OF h, of 7] obtain w1 where
    run: "set_objective [2, 5] 7 example_backend = (Inr (), w1)" and oct: "obj_constant_term w1 = 7"
    and len: "length (m_vars (model w1)) = length (m_vars (model example_backend))"
    by blast
  have r0: "in_range 0 (m_vars (model w1))" and r1: "in_range 1 (m_vars (model w1))"
    using len by (simp_all add: in_range_def example_backend_def)
  obtain p0 where p0: "GurobiBackend_init example_start (m_ModelSense (model w1) = - 1) = Inr p0"
    using init_example_start by blast
  obtain p w2 where cp: "GurobiBackend_copy example_start w1 = (Inr p, w2)"
    by (simp add: copy_run p0)
  note r = copy_result [OF cp]
  have m: "model p = (model w1)\<lparr>m_ModelName := Some (c_str (case m_ModelName (model w1) of None \<Rightarrow> [] | Some v \<Rightarrow> v))\<rparr>"
    using r by blast
  have z: "obj_constant_term p = 0" using r by blast
  have agree: "fst (ncols p) = fst (ncols w1) \<and> fst (nrows p) = fst (nrows w1) \<and>
     fst (is_maximization p) = fst (is_maximization w1) \<and>
     fst (objective_coefficient 0 None p) = fst (objective_coefficient 0 None w1) \<and>
     fst (objective_coefficient 1 None p) = fst (objective_coefficient 1 None w1)"
    using m r0 r1
    by (simp add: is_maximization_run objective_coefficient_read)
  have v1: "fst (get_objective_value (snd (solve gurobi_c_h example_optimize w1))) = Inr (15 / 2 + 7)"
    using oct by (simp add: solve_example_optimize get_objective_value_run [where v = "15 / 2"])
  have v2: "fst (get_objective_value (snd (solve gurobi_c_h example_optimize p))) = Inr (15 / 2)"
    using z by (simp add: solve_example_optimize get_objective_value_run [where v = "15 / 2"])
  show ?thesis using run cp agree oct z v1 v2 by blast
qed

end
